theory Spec2Isabelle
  imports Main "HOL-Library.Word" "HOL-Library.Sublist"
begin

unbundle bit_operations_syntax

section \<open>Python strings and the archive's name clean-up\<close>

text \<open>
  A Python \<open>str\<close> is a sequence of Unicode code points, so it is modelled as a list of
  natural numbers; \<open>py\<close> turns an ASCII literal into that representation.
\<close>

type_synonym pystr = "nat list"

definition py :: "string \<Rightarrow> pystr" where
  "py s = map of_char s"

text \<open>\<open>sep in s\<close> for a non-empty separator.\<close>

fun contains :: "pystr \<Rightarrow> pystr \<Rightarrow> bool" where
  "contains sep [] = (sep = [])"
| "contains sep (c # cs) = (prefix sep (c # cs) \<or> contains sep cs)"

text \<open>\<open>s.split(sep)[0]\<close>: everything before the first occurrence of \<open>sep\<close>.\<close>

fun split_head :: "pystr \<Rightarrow> pystr \<Rightarrow> pystr" where
  "split_head sep [] = []"
| "split_head sep (c # cs) = (if prefix sep (c # cs) then [] else c # split_head sep cs)"

text \<open>\<open>s.rsplit(c, 1)\<close> when \<open>c\<close> occurs in \<open>s\<close>: the parts before and after the last \<open>c\<close>.\<close>

definition rsplit1 :: "nat \<Rightarrow> pystr \<Rightarrow> pystr \<times> pystr" where
  "rsplit1 c s =
     (let ext = rev (takeWhile (\<lambda>x. x \<noteq> c) (rev s))
      in (take (length s - length ext - 1) s, ext))"

text \<open>\<open>s.replace(c, d)\<close> for single characters.\<close>

definition replace_char :: "nat \<Rightarrow> nat \<Rightarrow> pystr \<Rightarrow> pystr" where
  "replace_char c d s = map (\<lambda>x. if x = c then d else x) s"

definition sanitize_filename :: "pystr \<Rightarrow> pystr" where
  "sanitize_filename name0 =
     (let u = of_char CHR ''_'';
          name = replace_char (of_char CHR ''$'') u name0;
          name = replace_char (of_char CHR ''#'') u name;
          name = replace_char (of_char CHR ''<'') u name;
          name = replace_char (of_char CHR ''>'') u name;
          name = replace_char (of_char CHR '':'') u name;
          name = replace_char (of_char CHR ''|'') u name;
          name = replace_char (of_char CHR ''?'') u name;
          name = replace_char (of_char CHR ''*'') u name;
          name = replace_char 34 u name
      in name)"

text \<open>
  The body of the name-table loop of \<open>extract_resources\<close> (source lines 176 to 191),
  applied to the string that \<open>read_cstring\<close> returned.
\<close>

definition clean_name :: "pystr \<Rightarrow> pystr" where
  "clean_name name0 =
     (let name = (if contains (py ''_lodgroup='') name0
                  then split_head (py ''_lodgroup='') name0 else name0);
          name = (if contains (py ''_streamdb='') name
                  then split_head (py ''_streamdb='') name else name);
          name = (if contains (py ''_group='') name
                  then split_head (py ''_group='') name else name);
          name = (if of_char CHR ''.'' \<in> set name
                  then (let (basename, extension) = rsplit1 (of_char CHR ''.'') name;
                            extension = (if of_char CHR ''_'' \<in> set extension
                                         then split_head (py ''_'') extension
                                         else extension)
                        in basename @ py ''.'' @ extension)
                  else name)
      in sanitize_filename name)"


section \<open>The byte reader\<close>

text \<open>
  The archive is read through a binary file object: its contents and a cursor. A read
  past the end of the file is short (possibly empty) and moves the cursor only over the
  bytes it returned; a seek past the end is allowed and only moves the cursor. The
  operating system is taken to accept every offset and every length that fits its
  integer type.
\<close>

type_synonym byte = "8 word"

datatype error = StructError | ValueError | OverflowError | IndexError | OSError

record reader =
  data :: "byte list"
  pos :: nat

definition bind_err :: "error + 'a \<Rightarrow> ('a \<Rightarrow> error + 'b) \<Rightarrow> error + 'b" where
  "bind_err r k = (case r of Inl e \<Rightarrow> Inl e | Inr v \<Rightarrow> k v)"

text \<open>\<open>f.read(n)\<close> with a literal, non-negative \<open>n\<close>.\<close>

definition f_read :: "nat \<Rightarrow> reader \<Rightarrow> byte list \<times> reader" where
  "f_read n f =
     (let bs = take n (drop (pos f) (data f)) in (bs, f\<lparr>pos := pos f + length bs\<rparr>))"

text \<open>
  \<open>f.read(n)\<close> with a computed \<open>n\<close>: \<open>-1\<close> reads to the end of the file, any other
  negative length is a \<open>ValueError\<close>, and a length that does not fit the platform's
  signed 64-bit size type is an \<open>OverflowError\<close>.
\<close>

definition SSIZE_MAX :: int where
  "SSIZE_MAX = 2 ^ 63 - 1"

definition f_read_int :: "int \<Rightarrow> reader \<Rightarrow> error + (byte list \<times> reader)" where
  "f_read_int n f =
     (if n > SSIZE_MAX then Inl OverflowError
      else if n < - 1 then Inl ValueError
      else if n = - 1 then Inr (f_read (length (data f)) f)
      else Inr (f_read (nat n) f))"

text \<open>\<open>f.seek(p)\<close>: the offset has to fit the signed 64-bit file offset type.\<close>

definition f_seek :: "nat \<Rightarrow> reader \<Rightarrow> error + reader" where
  "f_seek p f = (if int p > SSIZE_MAX then Inl ValueError else Inr (f\<lparr>pos := p\<rparr>))"

definition f_tell :: "reader \<Rightarrow> nat" where
  "f_tell f = pos f"

text \<open>Little-endian value of a byte string.\<close>

fun le_nat :: "byte list \<Rightarrow> nat" where
  "le_nat [] = 0"
| "le_nat (b # bs) = unat b + 256 * le_nat bs"

text \<open>\<open>struct.unpack('<I', bs)[0]\<close> and \<open>struct.unpack('<Q', bs)[0]\<close>.\<close>

definition unpack_u32 :: "byte list \<Rightarrow> error + nat" where
  "unpack_u32 bs = (if length bs = 4 then Inr (le_nat bs) else Inl StructError)"

definition unpack_u64 :: "byte list \<Rightarrow> error + nat" where
  "unpack_u64 bs = (if length bs = 8 then Inr (le_nat bs) else Inl StructError)"

text \<open>\<open>struct.unpack('<I', f.read(4))[0]\<close> and \<open>struct.unpack('<Q', f.read(8))[0]\<close>.\<close>

definition read_u32 :: "reader \<Rightarrow> error + (nat \<times> reader)" where
  "read_u32 f = (let (bs, f') = f_read 4 f in bind_err (unpack_u32 bs) (\<lambda>v. Inr (v, f')))"

definition read_u64 :: "reader \<Rightarrow> error + (nat \<times> reader)" where
  "read_u64 f = (let (bs, f') = f_read 8 f in bind_err (unpack_u64 bs) (\<lambda>v. Inr (v, f')))"

text \<open>A run of discarded reads \<open>f.read(n\<^sub>1); f.read(n\<^sub>2); ...\<close>.\<close>

fun skip_reads :: "nat list \<Rightarrow> reader \<Rightarrow> reader" where
  "skip_reads [] f = f"
| "skip_reads (n # ns) f = skip_reads ns (snd (f_read n f))"

section \<open>Null-terminated strings\<close>

text \<open>
  \<open>bytes.decode('utf-8', errors='ignore')\<close> of the standard library: well-formed
  sequences give their code point; an ill-formed sequence is dropped up to (and not
  including) the byte that broke it, a lone invalid byte is dropped alone, and a
  sequence cut off by the end of the input is dropped whole.
\<close>

definition is_cont :: "byte \<Rightarrow> bool" where
  "is_cont b = (0x80 \<le> b \<and> b < 0xC0)"

fun utf8_ignore :: "byte list \<Rightarrow> pystr" where
  "utf8_ignore [] = []"
| "utf8_ignore (c # bs) =
     (if c < 0x80 then unat c # utf8_ignore bs
      else if c < 0xC2 then utf8_ignore bs
      else if c < 0xE0 then
        (case bs of
           [] \<Rightarrow> []
         | c2 # bs2 \<Rightarrow>
             if \<not> is_cont c2 then utf8_ignore bs
             else ((unat c - 0xC0) * 64 + (unat c2 - 0x80)) # utf8_ignore bs2)
      else if c < 0xF0 then
        (case bs of
           [] \<Rightarrow> []
         | c2 # bs2 \<Rightarrow>
             if \<not> is_cont c2 \<or> (if c2 < 0xA0 then c = 0xE0 else c = 0xED)
             then utf8_ignore bs
             else (case bs2 of
                     [] \<Rightarrow> []
                   | c3 # bs3 \<Rightarrow>
                       if \<not> is_cont c3 then utf8_ignore bs2
                       else ((unat c - 0xE0) * 4096 + (unat c2 - 0x80) * 64
                              + (unat c3 - 0x80)) # utf8_ignore bs3))
      else if c < 0xF5 then
        (case bs of
           [] \<Rightarrow> []
         | c2 # bs2 \<Rightarrow>
             if \<not> is_cont c2 \<or> (if c2 < 0x90 then c = 0xF0 else c = 0xF4)
             then utf8_ignore bs
             else (case bs2 of
                     [] \<Rightarrow> []
                   | c3 # bs3 \<Rightarrow>
                       if \<not> is_cont c3 then utf8_ignore bs2
                       else (case bs3 of
                               [] \<Rightarrow> []
                             | c4 # bs4 \<Rightarrow>
                                 if \<not> is_cont c4 then utf8_ignore bs3
                                 else ((unat c - 0xF0) * 262144 + (unat c2 - 0x80) * 4096
                                        + (unat c3 - 0x80) * 64 + (unat c4 - 0x80))
                                      # utf8_ignore bs4)))
      else utf8_ignore bs)"

text \<open>The loop of \<open>read_cstring\<close>: one byte per round, until a null byte or an empty read.\<close>

function read_cstring_loop :: "reader \<Rightarrow> byte list \<Rightarrow> byte list \<times> reader" where
  "read_cstring_loop f chars =
     (let (c, f') = f_read 1 f
      in if c = [] \<or> c = [0] then (chars, f') else read_cstring_loop f' (chars @ c))"
  by pat_completeness auto
termination
  by (relation "measure (\<lambda>(f, chars). length (data f) - pos f)")
     (auto simp: f_read_def Let_def)

declare read_cstring_loop.simps [simp del]

definition read_cstring :: "reader \<Rightarrow> pystr \<times> reader" where
  "read_cstring f = (let (chars, f') = read_cstring_loop f [] in (utf8_ignore chars, f'))"


section \<open>The archive extractor\<close>

subsection \<open>Environment and state\<close>

text \<open>
  What the extractor uses and the repository does not define is a parameter: the
  optional decompression capability (\<open>None\<close> when no library was loaded; when loaded, a
  call returns \<open>None\<close> where the Python function raises), the path arithmetic of
  \<open>pathlib\<close>, and the filesystem, whose operations return the new filesystem and the
  exception they raised, if any. Console output is not modelled, nor is running out of
  memory.
\<close>

record 'fs env =
  oodle :: "(byte list \<Rightarrow> nat \<Rightarrow> byte list option) option"
  path_join :: "pystr \<Rightarrow> pystr \<Rightarrow> pystr"
  path_norm :: "pystr \<Rightarrow> pystr"
  is_dir :: "pystr \<Rightarrow> 'fs \<Rightarrow> bool"
  mkdir_parent :: "pystr \<Rightarrow> 'fs \<Rightarrow> 'fs \<times> error option"
  write_file :: "pystr \<Rightarrow> byte list \<Rightarrow> 'fs \<Rightarrow> 'fs \<times> error option"

definition fs_step :: "'fs \<times> error option \<Rightarrow> error + 'fs" where
  "fs_step r = (case r of (s, None) \<Rightarrow> Inr s | (s, Some e) \<Rightarrow> Inl e)"

text \<open>
  The state of the record loop: the archive's file object, the filesystem, the two
  counters, and (as a ghost field) the calls made to the decompression capability.
\<close>

record 'fs xstate =
  rd :: reader
  fs :: 'fs
  extracted :: nat
  skipped :: nat
  oodle_calls :: "(byte list \<times> nat) list"

text \<open>The values the record loop takes from the code before it.\<close>

record ctx =
  output_dir :: pystr
  names :: "pystr list"
  names_count :: nat
  dummy7_off :: nat

record file_record =
  type_id :: nat
  name_id :: nat
  offset :: nat
  zsize :: nat
  size :: nat
  zip_flags :: nat

subsection \<open>One record\<close>

text \<open>The fixed-layout fields of one record (source lines 204 to 230).\<close>

definition read_record :: "reader \<Rightarrow> error + (file_record \<times> reader)" where
  "read_record f0 =
     (let f = skip_reads [8, 8, 8] f0 in
      bind_err (read_u64 f) (\<lambda>(type_id, f).
      bind_err (read_u64 f) (\<lambda>(name_id, f).
      let f = skip_reads [8, 8] f in
      bind_err (read_u64 f) (\<lambda>(offset, f).
      bind_err (read_u64 f) (\<lambda>(zsize, f).
      bind_err (read_u64 f) (\<lambda>(size, f).
      let f = skip_reads [8, 4, 4, 8, 4, 4] f in
      bind_err (read_u64 f) (\<lambda>(zip_flags, f).
      let f = skip_reads [8, 4, 4, 8] f in
      Inr (\<lparr>type_id = type_id, name_id = name_id, offset = offset, zsize = zsize,
             size = size, zip_flags = zip_flags\<rparr>, f))))))))"

text \<open>
  The two look-ups in the ID table (source lines 232 to 243); the cursor is saved before
  them and restored after them.
\<close>

definition lookup_ids :: "nat \<Rightarrow> file_record \<Rightarrow> reader \<Rightarrow> error + (nat \<times> nat \<times> nat \<times> reader)" where
  "lookup_ids d7 r f =
     (let current_pos = f_tell f;
          type_idx = type_id r * 8 + d7;
          name_idx = (name_id r + 1) * 8 + d7 in
      bind_err (f_seek type_idx f) (\<lambda>f.
      bind_err (read_u64 f) (\<lambda>(type_str_id, f).
      bind_err (f_seek name_idx f) (\<lambda>f.
      bind_err (read_u64 f) (\<lambda>(name_str_id, f).
      bind_err (f_seek current_pos f) (\<lambda>f.
      Inr (current_pos, type_str_id, name_str_id, f)))))))"

text \<open>\<open>xs[k]\<close> for a non-negative \<open>k\<close>.\<close>

definition list_get :: "'a list \<Rightarrow> nat \<Rightarrow> error + 'a" where
  "list_get xs k = (if k < length xs then Inr (xs ! k) else Inl IndexError)"

text \<open>The decimal digits of a number, and the format \<open>{i:08d}\<close>.\<close>

fun decimal :: "nat \<Rightarrow> pystr" where
  "decimal n = (if n < 10 then [48 + n] else decimal (n div 10) @ [48 + n mod 10])"

declare decimal.simps [simp del]

definition fmt_08d :: "nat \<Rightarrow> pystr" where
  "fmt_08d i = (let ds = decimal i in replicate (8 - length ds) 48 @ ds)"

text \<open>The file name of record \<open>i\<close> (source lines 245 to 248).\<close>

definition record_filename :: "ctx \<Rightarrow> nat \<Rightarrow> nat \<Rightarrow> error + pystr" where
  "record_filename cx name_str_id i =
     bind_err (if name_str_id < names_count cx then list_get (names cx) name_str_id
               else Inr [])
       (\<lambda>str2.
          let filename = (if str2 \<noteq> [] then str2 else py ''file_'' @ fmt_08d i @ py ''.dat'')
          in Inr (replace_char 92 (of_char CHR ''/'') filename))"

definition EXTRACT_GARBAGE :: bool where
  "EXTRACT_GARBAGE = False"

definition is_garbage_file :: "pystr \<Rightarrow> nat \<Rightarrow> bool" where
  "is_garbage_file filename sz =
     (if \<not> EXTRACT_GARBAGE then
        (if of_char CHR ''/'' \<notin> set filename \<and> 92 \<notin> set filename then
           (if of_char CHR ''.'' \<notin> set filename then
              (if sz < 100 then True else False)
            else False)
         else False)
      else False)"

text \<open>\<open>filename.split('/')[-1]\<close>.\<close>

definition last_component :: "pystr \<Rightarrow> pystr" where
  "last_component s = rev (takeWhile (\<lambda>x. x \<noteq> of_char CHR ''/'') (rev s))"

text \<open>The output path of a record (source lines 254 to 260).\<close>

definition output_path_of :: "'fs env \<Rightarrow> ctx \<Rightarrow> pystr \<Rightarrow> 'fs \<Rightarrow> pystr" where
  "output_path_of ev cx filename s =
     (let output_path = path_join ev (output_dir cx) filename;
          output_path = (if is_dir ev output_path s
                         then path_norm ev (output_path @ py ''.file'') else output_path);
          output_path = (if of_char CHR ''.'' \<notin> set (last_component filename)
                         then path_norm ev (output_path @ py ''.file'') else output_path)
      in output_path)"


text \<open>The span of a compressed payload that is read (source lines 271 to 277).\<close>

definition adjust_span :: "file_record \<Rightarrow> nat \<times> int" where
  "adjust_span r =
     (let actual_offset = offset r;
          actual_zsize = int (zsize r) in
      if zip_flags r AND 4 \<noteq> 0 then
        (if \<not> (zip_flags r AND 1 \<noteq> 0) then (actual_offset + 12, actual_zsize - 12)
         else (actual_offset, actual_zsize))
      else (actual_offset, actual_zsize))"

text \<open>
  Writing the raw compressed bytes beside the output path (source lines 289 to 291 and
  293 to 295).
\<close>

definition write_compressed :: "'fs env \<Rightarrow> pystr \<Rightarrow> byte list \<Rightarrow> 'fs xstate \<Rightarrow> error + 'fs xstate" where
  "write_compressed ev output_path compressed_data st =
     (let compressed_path = output_path @ py ''.compressed'' in
      bind_err (fs_step (write_file ev compressed_path compressed_data (fs st)))
        (\<lambda>s. Inr (st\<lparr>fs := s\<rparr>)))"

text \<open>
  Reading the compressed span (source lines 271 to 280), with the cursor already at the
  payload offset.
\<close>

definition read_compressed :: "file_record \<Rightarrow> reader \<Rightarrow> error + (byte list \<times> reader)" where
  "read_compressed r f =
     (let (actual_offset, actual_zsize) = adjust_span r in
      bind_err (f_seek actual_offset f) (\<lambda>f. f_read_int actual_zsize f))"

text \<open>
  The payload of a record (source lines 264 to 295). In the compressed branch the call to
  the capability and the write of its result are both inside the \<open>try\<close>, so an exception
  of either leads to the fallback.
\<close>

definition write_payload :: "'fs env \<Rightarrow> file_record \<Rightarrow> pystr \<Rightarrow> 'fs xstate \<Rightarrow> error + 'fs xstate" where
  "write_payload ev r output_path st =
     bind_err (f_seek (offset r) (rd st)) (\<lambda>f.
       if size r = zsize r then
         bind_err (f_read_int (int (size r)) f) (\<lambda>(dat, f).
         bind_err (fs_step (write_file ev output_path dat (fs st))) (\<lambda>s.
         Inr (st\<lparr>rd := f, fs := s\<rparr>)))
       else
         bind_err (read_compressed r f) (\<lambda>(compressed_data, f).
         let st = st\<lparr>rd := f\<rparr> in
         (case oodle ev of
            Some oodle_decompress \<Rightarrow>
              (let st = st\<lparr>oodle_calls := oodle_calls st @ [(compressed_data, size r)]\<rparr> in
               case oodle_decompress compressed_data (size r) of
                 Some decompressed \<Rightarrow>
                   (case write_file ev output_path decompressed (fs st) of
                      (s, None) \<Rightarrow> Inr (st\<lparr>fs := s\<rparr>)
                    | (s, Some e) \<Rightarrow>
                        write_compressed ev output_path compressed_data (st\<lparr>fs := s\<rparr>))
               | None \<Rightarrow> write_compressed ev output_path compressed_data st)
          | None \<Rightarrow> write_compressed ev output_path compressed_data st)))"

text \<open>
  The second half of a round of the record loop (source lines 250 to 298): the garbage
  filter, the output path, the payload, and the cursor put back to \<open>current_pos\<close>.
\<close>

definition emit_record ::
  "'fs env \<Rightarrow> ctx \<Rightarrow> file_record \<Rightarrow> nat \<Rightarrow> pystr \<Rightarrow> 'fs xstate \<Rightarrow> error + 'fs xstate" where
  "emit_record ev cx r current_pos filename st =
     (if is_garbage_file filename (size r) then Inr (st\<lparr>skipped := skipped st + 1\<rparr>)
      else
        (let output_path = output_path_of ev cx filename (fs st) in
         bind_err (fs_step (mkdir_parent ev output_path (fs st))) (\<lambda>s.
         bind_err (write_payload ev r output_path (st\<lparr>fs := s\<rparr>)) (\<lambda>st.
         bind_err (f_seek current_pos (rd st)) (\<lambda>f.
         Inr (st\<lparr>rd := f, extracted := extracted st + 1\<rparr>))))))"

text \<open>One round of the record loop (source lines 204 to 298), for the record of index \<open>i\<close>.\<close>

definition extract_record :: "'fs env \<Rightarrow> ctx \<Rightarrow> nat \<Rightarrow> 'fs xstate \<Rightarrow> error + 'fs xstate" where
  "extract_record ev cx i st =
     bind_err (read_record (rd st)) (\<lambda>(r, f).
     bind_err (lookup_ids (dummy7_off cx) r f) (\<lambda>(current_pos, type_str_id, name_str_id, f).
     bind_err (record_filename cx name_str_id i) (\<lambda>filename.
     emit_record ev cx r current_pos filename (st\<lparr>rd := f\<rparr>))))"

text \<open>The record loop \<open>for i in range(files_count)\<close>, from index \<open>i\<close> with \<open>n\<close> rounds left.\<close>

fun records_loop :: "'fs env \<Rightarrow> ctx \<Rightarrow> nat \<Rightarrow> nat \<Rightarrow> 'fs xstate \<Rightarrow> error + 'fs xstate" where
  "records_loop ev cx i 0 st = Inr st"
| "records_loop ev cx i (Suc n) st =
     bind_err (extract_record ev cx i st) (records_loop ev cx (Suc i) n)"

subsection \<open>Header, name table and auxiliary table\<close>

text \<open>The loop reading the name offsets (source lines 165 to 167).\<close>

fun read_offsets :: "nat \<Rightarrow> reader \<Rightarrow> error + (nat list \<times> reader)" where
  "read_offsets 0 f = Inr ([], f)"
| "read_offsets (Suc n) f =
     bind_err (read_u64 f) (\<lambda>(name_off, f).
     bind_err (read_offsets n f) (\<lambda>(name_offsets, f). Inr (name_off # name_offsets, f)))"

text \<open>The loop filling the name table (source lines 172 to 192), from index \<open>i\<close>.\<close>

fun names_loop :: "nat \<Rightarrow> nat \<Rightarrow> nat list \<Rightarrow> pystr list \<Rightarrow> reader \<Rightarrow> error + (pystr list \<times> reader)" where
  "names_loop names_base i [] nms f = Inr (nms, f)"
| "names_loop names_base i (name_off # name_offsets) nms f =
     bind_err (f_seek (names_base + name_off) f) (\<lambda>f.
       let (name, f) = read_cstring f
       in names_loop names_base (Suc i) name_offsets (nms[i := clean_name name]) f)"

text \<open>
  The auxiliary-table pass (source lines 194 to 197); the result's cursor is the new
  \<open>dummy7_off\<close>.
\<close>

definition skip_aux :: "nat \<Rightarrow> nat \<Rightarrow> reader \<Rightarrow> error + reader" where
  "skip_aux d7 dummy2_num f =
     bind_err (f_seek d7 f) (\<lambda>f. Inr (skip_reads (replicate dummy2_num 4) f))"

record header =
  version :: nat
  files_count :: nat
  dummy_num :: nat
  dummy2_num :: nat
  files_2 :: nat
  names_off :: nat
  dummy4_off :: nat
  info_off :: nat
  dummy6_off :: nat
  dummy7_off_decl :: nat
  data_off :: nat

text \<open>The header fields after the magic (source lines 134 to 157).\<close>

definition read_header :: "reader \<Rightarrow> error + (header \<times> reader)" where
  "read_header f =
     bind_err (read_u32 f) (\<lambda>(version, f).
     let f = skip_reads [8, 4, 4, 4, 4, 8] f in
     bind_err (read_u32 f) (\<lambda>(files_count, f).
     bind_err (read_u32 f) (\<lambda>(dummy_num, f).
     bind_err (read_u32 f) (\<lambda>(dummy2_num, f).
     bind_err (read_u32 f) (\<lambda>(files_2, f).
     let f = skip_reads [8, 8] f in
     bind_err (read_u64 f) (\<lambda>(names_off, f).
     bind_err (read_u64 f) (\<lambda>(dummy4_off, f).
     bind_err (read_u64 f) (\<lambda>(info_off, f).
     bind_err (read_u64 f) (\<lambda>(dummy6_off, f).
     bind_err (read_u64 f) (\<lambda>(dummy7_off, f).
     bind_err (read_u64 f) (\<lambda>(data_off, f).
     Inr (\<lparr>version = version, files_count = files_count, dummy_num = dummy_num,
            dummy2_num = dummy2_num, files_2 = files_2, names_off = names_off,
            dummy4_off = dummy4_off, info_off = info_off, dummy6_off = dummy6_off,
            dummy7_off_decl = dummy7_off, data_off = data_off\<rparr>, f))))))))))))"

definition IDCL :: "byte list" where
  "IDCL = [0x49, 0x44, 0x43, 0x4C]"

text \<open>
  Everything \<open>extract_resources\<close> does before the record loop (source lines 129 to 199):
  \<open>Inr None\<close> when the magic is wrong, otherwise the header, the values the loop uses
  and the file object placed at the record table.
\<close>

definition read_index :: "pystr \<Rightarrow> byte list \<Rightarrow> error + (header \<times> ctx \<times> reader) option" where
  "read_index out_dir bytes =
     (let f = \<lparr>data = bytes, pos = 0\<rparr>;
          (magic, f) = f_read 4 f in
      if magic \<noteq> IDCL then Inr None
      else
        bind_err (read_header f) (\<lambda>(h, f).
        bind_err (f_seek (names_off h) f) (\<lambda>f.
        bind_err (read_u64 f) (\<lambda>(names_count, f).
        bind_err (read_offsets names_count f) (\<lambda>(name_offsets, f).
        let names_base = f_tell f in
        bind_err (names_loop names_base 0 name_offsets (replicate names_count []) f) (\<lambda>(nms, f).
        bind_err (skip_aux (dummy7_off_decl h) (dummy2_num h) f) (\<lambda>f.
        let d7 = f_tell f in
        bind_err (f_seek (info_off h) f) (\<lambda>f.
        Inr (Some (h, \<lparr>output_dir = out_dir, names = nms, names_count = names_count,
                         dummy7_off = d7\<rparr>, f))))))))))"

text \<open>
  \<open>extract_resources\<close> on the bytes of the archive, with the output directory already
  created. A wrong magic ends the run without an exception and without output.
\<close>

definition extract_resources :: "'fs env \<Rightarrow> pystr \<Rightarrow> byte list \<Rightarrow> 'fs \<Rightarrow> error + 'fs xstate" where
  "extract_resources ev out_dir bytes s0 =
     bind_err (read_index out_dir bytes) (\<lambda>idx.
       case idx of
         None \<Rightarrow> Inr \<lparr>rd = \<lparr>data = bytes, pos = min 4 (length bytes)\<rparr>, fs = s0,
                        extracted = 0, skipped = 0, oodle_calls = []\<rparr>
       | Some (h, cx, f) \<Rightarrow>
           records_loop ev cx 0 (files_count h)
             \<lparr>rd = f, fs = s0, extracted = 0, skipped = 0, oodle_calls = []\<rparr>)"

text \<open>
  A filesystem for running the model on concrete archives: it only records the writes,
  in order; paths are joined with a slash and no path is a directory.
\<close>

definition log_env :: "(byte list \<Rightarrow> nat \<Rightarrow> byte list option) option
    \<Rightarrow> (pystr \<times> byte list) list env" where
  "log_env dec =
     \<lparr>oodle = dec,
      path_join = (\<lambda>d n. d @ py ''/'' @ n),
      path_norm = (\<lambda>p. p),
      is_dir = (\<lambda>p s. False),
      mkdir_parent = (\<lambda>p s. (s, None)),
      write_file = (\<lambda>p bs s. (s @ [(p, bs)], None))\<rparr>"

section \<open>The mesh converter\<close>

subsection \<open>Floating-point numbers\<close>

text \<open>
  Floating-point values are kept abstract: the decoding of four bytes and the arithmetic
  are parameters, so that what is proved holds for any arithmetic, IEEE 754 included.
  The operations that Python lets raise (\<open>x ** 2\<close>, \<open>math.sqrt\<close>, \<open>/\<close>) return an error
  or a value.
\<close>

record 'f flops =
  f32 :: "byte list \<Rightarrow> 'f"
  fzero :: 'f
  fone :: 'f
  fneg :: "'f \<Rightarrow> 'f"
  fadd :: "'f \<Rightarrow> 'f \<Rightarrow> 'f"
  fsub :: "'f \<Rightarrow> 'f \<Rightarrow> 'f"
  fmul :: "'f \<Rightarrow> 'f \<Rightarrow> 'f"
  fgt :: "'f \<Rightarrow> 'f \<Rightarrow> bool"
  fsquare :: "'f \<Rightarrow> error + 'f"
  fsqrt :: "'f \<Rightarrow> error + 'f"
  fdiv :: "'f \<Rightarrow> 'f \<Rightarrow> error + 'f"

type_synonym 'f vec3 = "'f \<times> 'f \<times> 'f"
type_synonym 'f uv = "'f \<times> 'f"
type_synonym face = "nat \<times> nat \<times> nat"

record 'f model_data =
  vertices :: "'f vec3 list"
  uvs :: "'f uv list"
  faces :: "face list"
  vertex_count :: nat
  face_count :: nat
  normals :: "'f vec3 list option"

subsection \<open>Decoding a part\<close>

definition BUFFER_MARKERS :: "byte list list" where
  "BUFFER_MARKERS = [[1, 1, 0, 0, 0, 0, 0, 0], [1, 1, 0, 0, 0, 0x10, 0, 0]]"

definition SKIP_TO_VERTEX_COUNT :: nat where
  "SKIP_TO_VERTEX_COUNT = 19"

definition SKIP_TO_FACE_COUNT :: nat where
  "SKIP_TO_FACE_COUNT = 2"

definition SKIP_TO_FIRST_VERTEX :: nat where
  "SKIP_TO_FIRST_VERTEX = 26"

definition VERTEX_STRIDE :: nat where
  "VERTEX_STRIDE = 48"

text \<open>The slice \<open>data[a:b]\<close> for \<open>0 \<le> a \<le> b\<close>.\<close>

definition slice :: "'a list \<Rightarrow> nat \<Rightarrow> nat \<Rightarrow> 'a list" where
  "slice xs a b = take (b - a) (drop a xs)"

definition read_int16_le :: "byte list \<Rightarrow> nat \<Rightarrow> error + nat" where
  "read_int16_le dat off =
     (let bs = slice dat off (off + 2)
      in if length bs = 2 then Inr (le_nat bs) else Inl StructError)"

definition read_float_le :: "'f flops \<Rightarrow> byte list \<Rightarrow> nat \<Rightarrow> error + 'f" where
  "read_float_le ops dat off =
     (let bs = slice dat off (off + 4)
      in if length bs = 4 then Inr (f32 ops bs) else Inl StructError)"

text \<open>The inner loop of \<open>find_buffer_marker\<close>: the first marker that matches at \<open>i\<close>.\<close>

definition marker_at :: "byte list \<Rightarrow> nat \<Rightarrow> byte list option" where
  "marker_at dat i =
     (let marker_len = length (hd BUFFER_MARKERS)
      in List.find (\<lambda>marker. slice dat i (i + marker_len) = marker) BUFFER_MARKERS)"

fun scan_markers :: "byte list \<Rightarrow> nat list \<Rightarrow> (nat \<times> byte list) option" where
  "scan_markers dat [] = None"
| "scan_markers dat (i # rest) =
     (case marker_at dat i of Some marker \<Rightarrow> Some (i, marker) | None \<Rightarrow> scan_markers dat rest)"

definition find_buffer_marker :: "byte list \<Rightarrow> nat \<Rightarrow> (nat \<times> byte list) option" where
  "find_buffer_marker dat start_offset =
     (let marker_len = length (hd BUFFER_MARKERS)
      in scan_markers dat
           [start_offset ..< nat (int (length dat) - int marker_len + 1)])"

text \<open>The vertex loop of \<open>extract_model\<close>, with \<open>n\<close> records left to read.\<close>

fun read_vertices ::
  "'f flops \<Rightarrow> byte list \<Rightarrow> nat \<Rightarrow> nat \<Rightarrow> 'f vec3 list \<Rightarrow> 'f uv list
     \<Rightarrow> error + ('f vec3 list \<times> 'f uv list \<times> nat)" where
  "read_vertices ops dat off 0 vs us = Inr (vs, us, off)"
| "read_vertices ops dat off (Suc n) vs us =
     bind_err (read_float_le ops dat off) (\<lambda>x.
     bind_err (read_float_le ops dat (off + 4)) (\<lambda>y.
     bind_err (read_float_le ops dat (off + 8)) (\<lambda>z.
     bind_err (read_float_le ops dat (off + 12)) (\<lambda>u.
     bind_err (read_float_le ops dat (off + 16)) (\<lambda>v.
     read_vertices ops dat (off + VERTEX_STRIDE) n (vs @ [(x, y, z)]) (us @ [(u, v)]))))))"

text \<open>The face loop of \<open>extract_model\<close>, with \<open>n\<close> records left to read.\<close>

fun read_faces :: "byte list \<Rightarrow> nat \<Rightarrow> nat \<Rightarrow> face list \<Rightarrow> error + (face list \<times> nat)" where
  "read_faces dat off 0 fcs = Inr (fcs, off)"
| "read_faces dat off (Suc n) fcs =
     bind_err (read_int16_le dat off) (\<lambda>idx1.
     bind_err (read_int16_le dat (off + 2)) (\<lambda>idx2.
     bind_err (read_int16_le dat (off + 4)) (\<lambda>idx3.
     read_faces dat (off + 6) n (fcs @ [(idx1, idx2, idx3)]))))"

text \<open>
  \<open>extract_model\<close>: \<open>Inr None\<close> is the result \<open>(None, -1)\<close> when no marker is left, and
  \<open>Inr (Some (part, offset))\<close> a decoded part with the offset after its face data.
\<close>

definition extract_model ::
  "'f flops \<Rightarrow> byte list \<Rightarrow> nat \<Rightarrow> error + ('f model_data \<times> nat) option" where
  "extract_model ops dat start_search_offset =
     (case find_buffer_marker dat start_search_offset of
        None \<Rightarrow> Inr None
      | Some (marker_offset, marker) \<Rightarrow>
          (let off = marker_offset + length BUFFER_MARKERS;
               off = off + SKIP_TO_VERTEX_COUNT in
           bind_err (read_int16_le dat off) (\<lambda>vertex_count.
           let off = off + 2;
               off = off + SKIP_TO_FACE_COUNT in
           bind_err (read_int16_le dat off) (\<lambda>face_count.
           let off = off + 2;
               off = off + SKIP_TO_FIRST_VERTEX in
           bind_err (read_vertices ops dat off vertex_count [] []) (\<lambda>(vs, us, off).
           bind_err (read_faces dat off face_count []) (\<lambda>(fcs, off).
           Inr (Some (\<lparr>vertices = vs, uvs = us, faces = fcs, vertex_count = vertex_count,
                        face_count = face_count, normals = None\<rparr>, off))))))))"


subsection \<open>Transforms\<close>

definition ROTATE_X_MINUS_90 :: bool where
  "ROTATE_X_MINUS_90 = True"

definition FLIP_UV_MAPS :: bool where
  "FLIP_UV_MAPS = True"

definition FLIP_FACE_ORIENTATION :: bool where
  "FLIP_FACE_ORIENTATION = True"

definition SHADE_SMOOTH :: bool where
  "SHADE_SMOOTH = True"

definition rotate_x_minus_90 :: "'f flops \<Rightarrow> 'f vec3 list \<Rightarrow> 'f vec3 list" where
  "rotate_x_minus_90 ops vs = map (\<lambda>(x, y, z). (x, z, fneg ops y)) vs"

definition flip_uvs :: "'f flops \<Rightarrow> 'f uv list \<Rightarrow> 'f uv list" where
  "flip_uvs ops us = map (\<lambda>(u, v). (u, fsub ops (fone ops) v)) us"

definition flip_faces :: "face list \<Rightarrow> face list" where
  "flip_faces fcs = map (\<lambda>(a, b, c). (a, c, b)) fcs"

text \<open>\<open>normals[idx][k] += n\<^sub>k\<close> for the three components.\<close>

definition add_normal :: "'f flops \<Rightarrow> 'f vec3 \<Rightarrow> nat \<Rightarrow> 'f vec3 list \<Rightarrow> error + 'f vec3 list" where
  "add_normal ops n idx nrm =
     bind_err (list_get nrm idx) (\<lambda>(a, b, c).
       case n of (nx, ny, nz) \<Rightarrow>
         Inr (nrm[idx := (fadd ops a nx, fadd ops b ny, fadd ops c nz)]))"

text \<open>The face loop of \<open>calculate_vertex_normals\<close>.\<close>

fun accumulate_normals ::
  "'f flops \<Rightarrow> 'f vec3 list \<Rightarrow> face list \<Rightarrow> 'f vec3 list \<Rightarrow> error + 'f vec3 list" where
  "accumulate_normals ops vs [] nrm = Inr nrm"
| "accumulate_normals ops vs ((i0, i1, i2) # fcs) nrm =
     bind_err (list_get vs i0) (\<lambda>(x0, y0, z0).
     bind_err (list_get vs i1) (\<lambda>(x1, y1, z1).
     bind_err (list_get vs i2) (\<lambda>(x2, y2, z2).
     let e1x = fsub ops x1 x0; e1y = fsub ops y1 y0; e1z = fsub ops z1 z0;
         e2x = fsub ops x2 x0; e2y = fsub ops y2 y0; e2z = fsub ops z2 z0;
         nx = fsub ops (fmul ops e1y e2z) (fmul ops e1z e2y);
         ny = fsub ops (fmul ops e1z e2x) (fmul ops e1x e2z);
         nz = fsub ops (fmul ops e1x e2y) (fmul ops e1y e2x) in
     bind_err (add_normal ops (nx, ny, nz) i0 nrm) (\<lambda>nrm.
     bind_err (add_normal ops (nx, ny, nz) i1 nrm) (\<lambda>nrm.
     bind_err (add_normal ops (nx, ny, nz) i2 nrm) (\<lambda>nrm.
     accumulate_normals ops vs fcs nrm))))))"

text \<open>The body of the normalising loop of \<open>calculate_vertex_normals\<close>.\<close>

definition normalize :: "'f flops \<Rightarrow> 'f vec3 \<Rightarrow> error + 'f vec3" where
  "normalize ops n =
     (case n of (a, b, c) \<Rightarrow>
        bind_err (fsquare ops a) (\<lambda>a2.
        bind_err (fsquare ops b) (\<lambda>b2.
        bind_err (fsquare ops c) (\<lambda>c2.
        bind_err (fsqrt ops (fadd ops (fadd ops a2 b2) c2)) (\<lambda>len.
        if fgt ops len (fzero ops) then
          bind_err (fdiv ops a len) (\<lambda>x.
          bind_err (fdiv ops b len) (\<lambda>y.
          bind_err (fdiv ops c len) (\<lambda>z. Inr (x, y, z))))
        else Inr (fzero ops, fzero ops, fone ops))))))"

fun normalize_all :: "'f flops \<Rightarrow> 'f vec3 list \<Rightarrow> error + 'f vec3 list" where
  "normalize_all ops [] = Inr []"
| "normalize_all ops (n # ns) =
     bind_err (normalize ops n) (\<lambda>v.
     bind_err (normalize_all ops ns) (\<lambda>rest. Inr (v # rest)))"

definition calculate_vertex_normals ::
  "'f flops \<Rightarrow> 'f vec3 list \<Rightarrow> face list \<Rightarrow> error + 'f vec3 list" where
  "calculate_vertex_normals ops vs fcs =
     (let nrm = map (\<lambda>_. (fzero ops, fzero ops, fzero ops)) vs in
      bind_err (accumulate_normals ops vs fcs nrm) (\<lambda>nrm. normalize_all ops nrm))"

definition apply_transforms :: "'f flops \<Rightarrow> 'f model_data \<Rightarrow> error + 'f model_data" where
  "apply_transforms ops m0 =
     (let m = (if ROTATE_X_MINUS_90
               then m0\<lparr>vertices := rotate_x_minus_90 ops (vertices m0)\<rparr> else m0);
          m = (if FLIP_UV_MAPS then m\<lparr>uvs := flip_uvs ops (uvs m)\<rparr> else m);
          m = (if FLIP_FACE_ORIENTATION then m\<lparr>faces := flip_faces (faces m)\<rparr> else m)
      in if SHADE_SMOOTH then
           bind_err (calculate_vertex_normals ops (vertices m) (faces m))
             (\<lambda>ns. Inr (m\<lparr>normals := Some ns\<rparr>))
         else Inr (m\<lparr>normals := None\<rparr>))"

text \<open>The invariant of a part: parallel position and UV lists, and faces inside them.\<close>

definition face_ok :: "nat \<Rightarrow> face \<Rightarrow> bool" where
  "face_ok n fc = (case fc of (a, b, c) \<Rightarrow> a < n \<and> b < n \<and> c < n)"

definition part_ok :: "'f model_data \<Rightarrow> bool" where
  "part_ok m =
     (length (uvs m) = length (vertices m)
      \<and> list_all (face_ok (length (vertices m))) (faces m))"


section \<open>Auxiliary notions for the statements\<close>

text \<open>The little-endian 32-bit and 64-bit values stored at an offset of a byte string.\<close>

definition u32_at :: "byte list \<Rightarrow> nat \<Rightarrow> nat" where
  "u32_at d p = le_nat (take 4 (drop p d))"

definition u64_at :: "byte list \<Rightarrow> nat \<Rightarrow> nat" where
  "u64_at d p = le_nat (take 8 (drop p d))"

text \<open>
  A small archive for running the model: one name table of two entries (\<open>x.y\<close> and
  \<open>a.b\<close>), one auxiliary entry of four bytes at offset 152, the ID table at 156 (its second
  entry holds 1), sixteen payload bytes at 172 and one record at 188, compressed
  (\<open>zsize = 16\<close>, \<open>size = 32\<close>) with flags 4. The values below are what the extractor
  reads from it, and \<open>truncated_archive\<close> is the same file cut inside the last,
  discarded fields of the record.
\<close>

definition sample_archive :: "byte list" where
  "sample_archive =
     [0x49, 0x44, 0x43, 0x4C] @ [1, 0, 0, 0] @ replicate 32 0
     @ [1, 0, 0, 0] @ [0, 0, 0, 0] @ [1, 0, 0, 0] @ [0, 0, 0, 0] @ replicate 16 0
     @ [120, 0, 0, 0, 0, 0, 0, 0] @ replicate 8 0 @ [188, 0, 0, 0, 0, 0, 0, 0]
     @ replicate 8 0 @ [152, 0, 0, 0, 0, 0, 0, 0] @ [172, 0, 0, 0, 0, 0, 0, 0]
     @ [2, 0, 0, 0, 0, 0, 0, 0] @ replicate 8 0 @ [4, 0, 0, 0, 0, 0, 0, 0]
     @ [0x78, 0x2E, 0x79, 0] @ [0x61, 0x2E, 0x62, 0]
     @ [9, 9, 9, 9]
     @ replicate 8 0 @ [1, 0, 0, 0, 0, 0, 0, 0]
     @ [1, 2, 3, 4, 5, 6, 7, 8, 9, 10, 11, 12, 13, 14, 15, 16]
     @ replicate 24 0 @ replicate 8 0 @ replicate 8 0 @ replicate 16 0
     @ [172, 0, 0, 0, 0, 0, 0, 0] @ [16, 0, 0, 0, 0, 0, 0, 0] @ [32, 0, 0, 0, 0, 0, 0, 0]
     @ replicate 32 0 @ [4, 0, 0, 0, 0, 0, 0, 0] @ replicate 24 0"

definition sample_header_v :: header where
  "sample_header_v = \<lparr>version = 1, files_count = 1, dummy_num = 0, dummy2_num = 1, files_2 = 0,
      names_off = 120, dummy4_off = 0, info_off = 188, dummy6_off = 0,
      dummy7_off_decl = 152, data_off = 172\<rparr>"

definition sample_ctx :: ctx where
  "sample_ctx = \<lparr>output_dir = py ''out'', names = [py ''x.y'', py ''a.b''], names_count = 2,
      dummy7_off = 156\<rparr>"

definition sample_rec :: file_record where
  "sample_rec = \<lparr>type_id = 0, name_id = 0, offset = 172, zsize = 16, size = 32, zip_flags = 4\<rparr>"

definition truncated_archive :: "byte list" where
  "truncated_archive = take 318 sample_archive"

text \<open>The little-endian 16-bit value stored at an offset of a byte string.\<close>

definition u16_at :: "byte list \<Rightarrow> nat \<Rightarrow> nat" where
  "u16_at d p = le_nat (take 2 (drop p d))"

text \<open>The face record stored at an offset: three 16-bit indices.\<close>

definition face_at :: "byte list \<Rightarrow> nat \<Rightarrow> face" where
  "face_at dat off = (u16_at dat off, u16_at dat (off + 2), u16_at dat (off + 4))"

text \<open>
  Two buffers for running the mesh model, each a 64-byte header and a marker at 64. In
  the first the two bytes at the marker end plus 19 hold a count of 1 and the two bytes
  at the marker start plus 2 plus 19 hold 0. The second is an empty part in the layout
  counted from the marker end (both counts 0), with the bytes \<open>01 00\<close> six bytes before
  its face count.
\<close>

definition shifted_mesh :: "byte list" where
  "shifted_mesh =
     replicate 64 0 @ [1, 1, 0, 0, 0, 0, 0, 0] @ replicate 19 0 @ [1, 0] @ replicate 78 0"

definition empty_part_mesh :: "byte list" where
  "empty_part_mesh =
     replicate 64 0 @ [1, 1, 0, 0, 0, 0, 0, 0] @ replicate 13 0 @ [0, 0] @ [0, 0] @ [1, 0]
     @ replicate 80 0"

section \<open>The reader, in closed form\<close>

lemma f_read_eq:
  "f_read n \<lparr>data = d, pos = p\<rparr> = (take n (drop p d), \<lparr>data = d, pos = p + min n (length d - p)\<rparr>)"
  by (simp add: f_read_def Let_def)

lemma read_u64_eq:
  "read_u64 \<lparr>data = d, pos = p\<rparr> =
     (if p + 8 \<le> length d then Inr (u64_at d p, \<lparr>data = d, pos = p + 8\<rparr>) else Inl StructError)"
  by (auto simp: read_u64_def f_read_eq unpack_u64_def bind_err_def u64_at_def min_def)

lemma read_u32_eq:
  "read_u32 \<lparr>data = d, pos = p\<rparr> =
     (if p + 4 \<le> length d then Inr (u32_at d p, \<lparr>data = d, pos = p + 4\<rparr>) else Inl StructError)"
  by (auto simp: read_u32_def f_read_eq unpack_u32_def bind_err_def u32_at_def min_def)

lemma skip_reads_eq:
  "skip_reads ns \<lparr>data = d, pos = p\<rparr> =
     \<lparr>data = d, pos = (if p \<le> length d then min (p + sum_list ns) (length d) else p)\<rparr>"
  by (induction ns arbitrary: p) (auto simp: f_read_eq min_def)

lemma f_seek_eq:
  "f_seek q \<lparr>data = d, pos = p\<rparr> =
     (if int q > SSIZE_MAX then Inl ValueError else Inr \<lparr>data = d, pos = q\<rparr>)"
  by (simp add: f_seek_def)

lemma read_record_eq:
  "read_record \<lparr>data = d, pos = p\<rparr> =
     (if p + 120 \<le> length d
      then Inr (\<lparr>type_id = u64_at d (p + 24), name_id = u64_at d (p + 32),
                  offset = u64_at d (p + 56), zsize = u64_at d (p + 64),
                  size = u64_at d (p + 72), zip_flags = u64_at d (p + 112)\<rparr>,
                \<lparr>data = d, pos = min (p + 144) (length d)\<rparr>)
      else Inl StructError)"
proof (cases "p + 120 \<le> length d")
  case True
  then show ?thesis
    by (simp add: read_record_def read_u64_eq skip_reads_eq bind_err_def add.assoc del: skip_reads.simps)
next
  case False
  then show ?thesis
    by (simp add: read_record_def read_u64_eq skip_reads_eq bind_err_def add.assoc min_def del: skip_reads.simps)
qed


lemma read_header_eq:
  "read_header \<lparr>data = d, pos = p\<rparr> =
     (if p + 116 \<le> length d
      then Inr (\<lparr>version = u32_at d p, files_count = u32_at d (p + 36),
                  dummy_num = u32_at d (p + 40), dummy2_num = u32_at d (p + 44),
                  files_2 = u32_at d (p + 48), names_off = u64_at d (p + 68),
                  dummy4_off = u64_at d (p + 76), info_off = u64_at d (p + 84),
                  dummy6_off = u64_at d (p + 92), dummy7_off_decl = u64_at d (p + 100),
                  data_off = u64_at d (p + 108)\<rparr>,
                \<lparr>data = d, pos = p + 116\<rparr>)
      else Inl StructError)"
proof (cases "p + 116 \<le> length d")
  case True
  then show ?thesis
    by (simp add: read_header_def read_u64_eq read_u32_eq skip_reads_eq bind_err_def add.assoc
        del: skip_reads.simps)
next
  case False
  then show ?thesis
    by (simp add: read_header_def read_u64_eq read_u32_eq skip_reads_eq bind_err_def add.assoc min_def
        del: skip_reads.simps)
qed

lemma lookup_ids_eq:
  "lookup_ids d7 r \<lparr>data = d, pos = p\<rparr> =
     (if int (type_id r * 8 + d7) > SSIZE_MAX then Inl ValueError
      else if \<not> type_id r * 8 + d7 + 8 \<le> length d then Inl StructError
      else if int ((name_id r + 1) * 8 + d7) > SSIZE_MAX then Inl ValueError
      else if \<not> (name_id r + 1) * 8 + d7 + 8 \<le> length d then Inl StructError
      else if int p > SSIZE_MAX then Inl ValueError
      else Inr (p, u64_at d (type_id r * 8 + d7), u64_at d ((name_id r + 1) * 8 + d7),
                \<lparr>data = d, pos = p\<rparr>))"
  by (simp add: lookup_ids_def f_tell_def f_seek_eq read_u64_eq bind_err_def Let_def)

lemma read_cstring_loop_eq:
  "read_cstring_loop \<lparr>data = d, pos = p\<rparr> acc =
     (acc @ takeWhile (\<lambda>b. b \<noteq> 0) (drop p d),
      \<lparr>data = d, pos = (let n = length (takeWhile (\<lambda>b. b \<noteq> 0) (drop p d))
                         in if p + n < length d then p + n + 1 else p + n)\<rparr>)"
proof (induction "length d - p" arbitrary: p acc)
  case 0
  then have "drop p d = []" by simp
  then show ?case
    using 0 by (subst read_cstring_loop.simps) (simp add: f_read_eq)
next
  case (Suc k)
  then have lt: "p < length d" by simp
  then obtain b rest where dr: "drop p d = b # rest"
    by (cases "drop p d") auto
  have dr': "drop (Suc p) d = rest"
    using dr by (metis drop_Suc list.sel(3) tl_drop)
  show ?case
  proof (cases "b = 0")
    case True
    then show ?thesis
      using lt dr by (subst read_cstring_loop.simps) (simp add: f_read_eq min_def)
  next
    case False
    have k: "k = length d - Suc p" using Suc.hyps(2) by simp
    have len: "length rest = length d - Suc p" using dr' by (metis length_drop)
    show ?thesis
      using False lt dr dr' Suc.hyps(1)[OF k, of "acc @ [b]"]
      by (subst read_cstring_loop.simps) (auto simp: f_read_eq min_def Let_def)
  qed
qed

section \<open>Properties of read_cstring\<close>

lemma read_cstring_eq:
  "read_cstring \<lparr>data = d, pos = p\<rparr> =
     (utf8_ignore (takeWhile (\<lambda>b. b \<noteq> 0) (drop p d)),
      \<lparr>data = d, pos = (let n = length (takeWhile (\<lambda>b. b \<noteq> 0) (drop p d))
                         in if p + n < length d then p + n + 1 else p + n)\<rparr>)"
  by (simp add: read_cstring_def read_cstring_loop_eq)

lemma utf8_ignore_ascii: "\<forall>b\<in>set bs. b < 0x80 \<Longrightarrow> utf8_ignore bs = map unat bs"
  by (induction bs) auto

lemma utf8_ignore_invalid_start:
  "(0x80 \<le> b \<and> b < 0xC2) \<or> 0xF5 \<le> b \<Longrightarrow> utf8_ignore (b # bs) = utf8_ignore bs"
  by (auto simp: word_le_nat_alt word_less_nat_alt)

text \<open>
  C8, amended: for every file object, whatever its cursor, \<open>read_cstring\<close> returns: it
  collects the bytes from the cursor up to the first null byte or the end of the file,
  leaves the cursor after the null byte (or at the end), and decodes the collected bytes
  permissively, invalid sequences being dropped, not replaced. So bytes below \<open>0x80\<close>
  decode to themselves, and a byte that cannot start a sequence leaves no trace.
\<close>

theorem read_cstring_scan_decode:
  "read_cstring f =
     (utf8_ignore (takeWhile (\<lambda>b. b \<noteq> 0) (drop (pos f) (data f))),
      f\<lparr>pos := (let n = length (takeWhile (\<lambda>b. b \<noteq> 0) (drop (pos f) (data f)))
                 in if pos f + n < length (data f) then pos f + n + 1 else pos f + n)\<rparr>)
   \<and> ((\<forall>b\<in>set bs. b < 0x80) \<longrightarrow> utf8_ignore bs = map unat bs)
   \<and> ((0x80 \<le> b \<and> b < 0xC2) \<or> 0xF5 \<le> b \<longrightarrow> utf8_ignore (b # bs') = utf8_ignore bs')"
  using read_cstring_eq[of "data f" "pos f"] utf8_ignore_ascii[of bs] utf8_ignore_invalid_start[of b bs']
  by (cases f) simp

text \<open>
  C8, as stated, says that invalid sequences are replaced. They are not: the invalid
  byte \<open>0xFF\<close> before \<open>A\<close> yields the one-character string \<open>A\<close>, with no replacement
  character in front.
\<close>

theorem read_cstring_drop_counterexample:
  "fst (read_cstring \<lparr>data = [0xFF, 0x41, 0, 0x42], pos = 0\<rparr>) = [0x41]
   \<and> fst (read_cstring \<lparr>data = [0xFF, 0x41, 0, 0x42], pos = 0\<rparr>) \<noteq> [0xFFFD, 0x41]"
  by (simp add: read_cstring_eq)

theorem read_cstring_scan_decode_witness:
  "read_cstring \<lparr>data = [0x61, 0xFF, 0x62, 0, 0x63], pos = 0\<rparr>
     = ([0x61, 0x62], \<lparr>data = [0x61, 0xFF, 0x62, 0, 0x63], pos = 4\<rparr>)
   \<and> utf8_ignore [0x61, 0x62] = [0x61, 0x62]
   \<and> utf8_ignore [0xFF, 0x62] = utf8_ignore [0x62]"
proof -
  have a: "\<forall>b\<in>set [0x61, 0x62 :: byte]. b < 0x80" by simp
  have b: "(0x80 \<le> (0xFF :: byte) \<and> (0xFF :: byte) < 0xC2) \<or> 0xF5 \<le> (0xFF :: byte)" by simp
  note t = read_cstring_scan_decode[of "\<lparr>data = [0x61, 0xFF, 0x62, 0, 0x63], pos = 0\<rparr>" "[0x61, 0x62]" "0xFF" "[0x62]"]
  from t have 1: "read_cstring \<lparr>data = [0x61, 0xFF, 0x62, 0, 0x63], pos = 0\<rparr>
     = ([0x61, 0x62], \<lparr>data = [0x61, 0xFF, 0x62, 0, 0x63], pos = 4\<rparr>)" by simp
  from t a have 2: "utf8_ignore [0x61, 0x62] = [0x61, 0x62]" by simp
  from t b have 3: "utf8_ignore [0xFF, 0x62] = utf8_ignore [0x62]" by blast
  from 1 2 3 show ?thesis by blast
qed

section \<open>Properties of the name clean-up\<close>

text \<open>
  C4, as stated: the clean-up maps \<open>foo#bar.tex_medium\<close> to \<open>foo_bar.tex\<close> and
  \<open>model_lodgroup=3.mesh\<close> to \<open>model.mesh\<close>. The second half does not hold: the name is
  cut at the tag, and the extension that follows the tag goes with it.
\<close>

theorem clean_name_lodgroup_counterexample:
  "clean_name (py ''model_lodgroup=3.mesh'') \<noteq> py ''model.mesh''"
  by code_simp

text \<open>
  C4, amended: the clean-up maps \<open>foo#bar.tex_medium\<close> to \<open>foo_bar.tex\<close> (compound
  extension collapsed, illegal character replaced) and \<open>model_lodgroup=3.mesh\<close> to
  \<open>model\<close> (everything from the build tag on is stripped, the extension included); an
  extension placed before the tag is kept.
\<close>

theorem clean_name_examples:
  "clean_name (py ''foo#bar.tex_medium'') = py ''foo_bar.tex''
   \<and> clean_name (py ''model_lodgroup=3.mesh'') = py ''model''
   \<and> clean_name (py ''model.mesh_lodgroup=3'') = py ''model.mesh''"
  by code_simp

section \<open>The extractor, in closed form\<close>

lemma bind_err_Inr_iff: "bind_err r k = Inr v \<longleftrightarrow> (\<exists>x. r = Inr x \<and> k x = Inr v)"
  by (cases r) (auto simp: bind_err_def)

lemma f_seek_gen:
  "f_seek q f = (if int q > SSIZE_MAX then Inl ValueError else Inr \<lparr>data = data f, pos = q\<rparr>)"
  by (cases f) (simp add: f_seek_def)


lemma skip_aux_gen:
  "skip_aux d7 n f =
     (if int d7 > SSIZE_MAX then Inl ValueError
      else Inr (skip_reads (replicate n 4) \<lparr>data = data f, pos = d7\<rparr>))"
  by (simp add: skip_aux_def f_seek_gen bind_err_def)





lemma f_read_int_eq:
  "f_read_int n \<lparr>data = d, pos = p\<rparr> =
     (if n > SSIZE_MAX then Inl OverflowError
      else if n < - 1 then Inl ValueError
      else if n = - 1 then Inr (drop p d, \<lparr>data = d, pos = p + (length d - p)\<rparr>)
      else Inr (take (nat n) (drop p d), \<lparr>data = d, pos = p + min (nat n) (length d - p)\<rparr>))"
  by (auto simp: f_read_int_def f_read_eq min_def)

lemma f_read_int_data:
  "f_read_int n f = Inr (bs, f') \<Longrightarrow> data f' = data f"
  by (cases f) (auto simp: f_read_int_eq split: if_splits)

lemma adjust_span_eq:
  "adjust_span r =
     (if zip_flags r AND 4 \<noteq> 0 \<and> zip_flags r AND 1 = 0
      then (offset r + 12, int (zsize r) - 12) else (offset r, int (zsize r)))"
  by (simp add: adjust_span_def Let_def)

lemma read_compressed_data:
  "read_compressed r f = Inr (cd, f') \<Longrightarrow> data f' = data f"
  by (auto simp: read_compressed_def bind_err_Inr_iff f_seek_gen adjust_span_eq
      split: if_splits dest!: f_read_int_data)

lemma read_compressed_value:
  assumes "read_compressed r f = Inr (cd, f')"
  shows "if zip_flags r AND 4 \<noteq> 0 \<and> zip_flags r AND 1 = 0
         then 11 \<le> zsize r
              \<and> cd = (if zsize r = 11 then drop (offset r + 12) (data f)
                       else take (zsize r - 12) (drop (offset r + 12) (data f)))
         else cd = take (zsize r) (drop (offset r) (data f))"
  using assms
  by (cases f)
     (auto simp: read_compressed_def bind_err_Inr_iff f_seek_gen adjust_span_eq f_read_int_eq
        nat_diff_distrib split: if_splits)

lemma write_compressed_eq:
  "write_compressed ev p cd st =
     (case write_file ev (p @ py ''.compressed'') cd (fs st) of
        (s, None) \<Rightarrow> Inr (st\<lparr>fs := s\<rparr>)
      | (s, Some e) \<Rightarrow> Inl e)"
  by (simp add: write_compressed_def fs_step_def bind_err_def split: prod.splits option.splits)

lemma write_payload_stored:
  assumes "size r = zsize r"
  shows "write_payload ev r p st =
     (if int (offset r) > SSIZE_MAX then Inl ValueError
      else if int (size r) > SSIZE_MAX then Inl OverflowError
      else case write_file ev p (take (size r) (drop (offset r) (data (rd st)))) (fs st) of
             (s, None) \<Rightarrow>
               Inr (st\<lparr>rd := \<lparr>data = data (rd st),
                               pos = offset r + min (size r) (length (data (rd st)) - offset r)\<rparr>,
                        fs := s\<rparr>)
           | (s, Some e) \<Rightarrow> Inl e)"
  using assms
  by (simp add: write_payload_def f_seek_gen f_read_int_eq bind_err_def fs_step_def
      split: prod.splits option.splits)

lemma write_payload_compressed:
  assumes "size r \<noteq> zsize r"
  shows "write_payload ev r p st =
     (if int (offset r) > SSIZE_MAX then Inl ValueError
      else bind_err (read_compressed r \<lparr>data = data (rd st), pos = offset r\<rparr>)
        (\<lambda>(cd, f).
           case oodle ev of
             None \<Rightarrow> write_compressed ev p cd (st\<lparr>rd := f\<rparr>)
           | Some dec \<Rightarrow>
               (case dec cd (size r) of
                  None \<Rightarrow> write_compressed ev p cd
                            (st\<lparr>rd := f, oodle_calls := oodle_calls st @ [(cd, size r)]\<rparr>)
                | Some out \<Rightarrow>
                    (case write_file ev p out (fs st) of
                       (s, None) \<Rightarrow>
                         Inr (st\<lparr>rd := f, oodle_calls := oodle_calls st @ [(cd, size r)],
                                  fs := s\<rparr>)
                     | (s, Some e) \<Rightarrow>
                         write_compressed ev p cd
                           (st\<lparr>rd := f, oodle_calls := oodle_calls st @ [(cd, size r)],
                                fs := s\<rparr>)))))"
  using assms
  by (auto simp: write_payload_def f_seek_gen bind_err_def Let_def
      split: prod.splits option.splits sum.splits)

lemma write_compressed_Inr:
  "write_compressed ev p cd st = Inr st'
     \<Longrightarrow> rd st' = rd st \<and> extracted st' = extracted st \<and> skipped st' = skipped st
         \<and> oodle_calls st' = oodle_calls st"
  by (auto simp: write_compressed_eq split: prod.splits option.splits)

lemma write_payload_Inr:
  assumes "write_payload ev r p st = Inr st'"
  shows "data (rd st') = data (rd st)" and "extracted st' = extracted st"
    and "skipped st' = skipped st"
proof -
  have "data (rd st') = data (rd st) \<and> extracted st' = extracted st \<and> skipped st' = skipped st"
  proof (cases "size r = zsize r")
    case True
    with assms show ?thesis
      by (auto simp: write_payload_stored split: if_splits prod.splits option.splits)
  next
    case False
    with assms obtain cd f where
      rc: "read_compressed r \<lparr>data = data (rd st), pos = offset r\<rparr> = Inr (cd, f)" and
      k: "(case oodle ev of
             None \<Rightarrow> write_compressed ev p cd (st\<lparr>rd := f\<rparr>)
           | Some dec \<Rightarrow>
               (case dec cd (size r) of
                  None \<Rightarrow> write_compressed ev p cd
                            (st\<lparr>rd := f, oodle_calls := oodle_calls st @ [(cd, size r)]\<rparr>)
                | Some out \<Rightarrow>
                    (case write_file ev p out (fs st) of
                       (s, None) \<Rightarrow>
                         Inr (st\<lparr>rd := f, oodle_calls := oodle_calls st @ [(cd, size r)],
                                  fs := s\<rparr>)
                     | (s, Some e) \<Rightarrow>
                         write_compressed ev p cd
                           (st\<lparr>rd := f, oodle_calls := oodle_calls st @ [(cd, size r)],
                                fs := s\<rparr>)))) = Inr st'"
      by (auto simp: write_payload_compressed bind_err_Inr_iff split: if_splits)
    have df: "data f = data (rd st)" using read_compressed_data[OF rc] by simp
    show ?thesis
    proof (cases "oodle ev")
      case None
      with k df show ?thesis by (auto dest!: write_compressed_Inr)
    next
      case (Some dec)
      note dec = this
      show ?thesis
      proof (cases "dec cd (size r)")
        case None
        with dec k df show ?thesis by (auto dest!: write_compressed_Inr)
      next
        case (Some out)
        obtain s eo where w: "write_file ev p out (fs st) = (s, eo)"
          by (cases "write_file ev p out (fs st)") auto
        show ?thesis
          using k dec Some w df by (cases eo) (auto dest!: write_compressed_Inr)
      qed
    qed
  qed
  then show "data (rd st') = data (rd st)" and "extracted st' = extracted st"
    and "skipped st' = skipped st" by simp_all
qed

lemma fs_step_Inr_iff: "fs_step x = Inr s \<longleftrightarrow> x = (s, None)"
  by (cases x) (auto simp: fs_step_def split: option.splits)

lemma extract_record_decomp:
  assumes "extract_record ev cx i st = Inr st'"
  obtains r k t fn where
    "pos (rd st) + 120 \<le> length (data (rd st))"
    "read_record (rd st)
       = Inr (r, \<lparr>data = data (rd st),
                  pos = min (pos (rd st) + 144) (length (data (rd st)))\<rparr>)"
    "lookup_ids (dummy7_off cx) r
        \<lparr>data = data (rd st), pos = min (pos (rd st) + 144) (length (data (rd st)))\<rparr>
       = Inr (min (pos (rd st) + 144) (length (data (rd st))), t, k,
              \<lparr>data = data (rd st),
                pos = min (pos (rd st) + 144) (length (data (rd st)))\<rparr>)"
    "record_filename cx k i = Inr fn"
    "is_garbage_file fn (size r) \<Longrightarrow>
       st' = st\<lparr>rd := \<lparr>data = data (rd st),
                         pos = min (pos (rd st) + 144) (length (data (rd st)))\<rparr>,
                 skipped := skipped st + 1\<rparr>"
    "\<not> is_garbage_file fn (size r) \<Longrightarrow>
       \<exists>s1 st2. mkdir_parent ev (output_path_of ev cx fn (fs st)) (fs st) = (s1, None)
         \<and> write_payload ev r (output_path_of ev cx fn (fs st))
              (st\<lparr>rd := \<lparr>data = data (rd st),
                           pos = min (pos (rd st) + 144) (length (data (rd st)))\<rparr>,
                   fs := s1\<rparr>) = Inr st2
         \<and> st' = st2\<lparr>rd := \<lparr>data = data (rd st),
                              pos = min (pos (rd st) + 144) (length (data (rd st)))\<rparr>,
                      extracted := extracted st2 + 1\<rparr>"
proof -
  obtain d p where rdst: "rd st = \<lparr>data = d, pos = p\<rparr>" by (cases "rd st") auto
  define q where "q = min (p + 144) (length d)"
  from assms obtain r f1 cur t k f2 fn where
    rec: "read_record \<lparr>data = d, pos = p\<rparr> = Inr (r, f1)" and
    ids: "lookup_ids (dummy7_off cx) r f1 = Inr (cur, t, k, f2)" and
    nm: "record_filename cx k i = Inr fn" and
    rest: "emit_record ev cx r cur fn (st\<lparr>rd := f2\<rparr>) = Inr st'"
    unfolding extract_record_def rdst by (auto simp: bind_err_Inr_iff)
  from rec have len: "p + 120 \<le> length d" and f1: "f1 = \<lparr>data = d, pos = q\<rparr>"
    by (auto simp: read_record_eq q_def split: if_splits)
  from ids have cur: "cur = q" and f2: "f2 = \<lparr>data = d, pos = q\<rparr>"
    and curok: "\<not> int q > SSIZE_MAX"
    unfolding f1 by (auto simp: lookup_ids_eq split: if_splits)
  have g: "is_garbage_file fn (size r) \<Longrightarrow>
       st' = st\<lparr>rd := \<lparr>data = d, pos = q\<rparr>, skipped := skipped st + 1\<rparr>"
    using rest f2 by (simp add: emit_record_def)
  have ng: "\<exists>s1 st2. mkdir_parent ev (output_path_of ev cx fn (fs st)) (fs st) = (s1, None)
         \<and> write_payload ev r (output_path_of ev cx fn (fs st))
              (st\<lparr>rd := \<lparr>data = d, pos = q\<rparr>, fs := s1\<rparr>) = Inr st2
         \<and> st' = st2\<lparr>rd := \<lparr>data = d, pos = q\<rparr>, extracted := extracted st2 + 1\<rparr>"
    if "\<not> is_garbage_file fn (size r)"
  proof -
    from rest that obtain s1 st2 f3 where
      mk: "mkdir_parent ev (output_path_of ev cx fn (fs st)) (fs st) = (s1, None)" and
      wp: "write_payload ev r (output_path_of ev cx fn (fs st)) (st\<lparr>rd := f2, fs := s1\<rparr>) = Inr st2" and
      sk: "f_seek cur (rd st2) = Inr f3" and
      st': "st' = st2\<lparr>rd := f3, extracted := extracted st2 + 1\<rparr>"
      by (auto simp: emit_record_def bind_err_Inr_iff Let_def fs_step_Inr_iff)
    from write_payload_Inr(1)[OF wp] have "data (rd st2) = d" by (simp add: f2)
    with sk cur have "f3 = \<lparr>data = d, pos = q\<rparr>"
      by (auto simp: f_seek_gen split: if_splits)
    with mk wp st' f2 show ?thesis by auto
  qed
  show thesis
    using that[of r t k fn] len rec f1 ids cur f2 nm g ng rdst q_def by simp
qed








section \<open>The sample archive, run\<close>

lemma le_nat_zeros [simp]: "le_nat (replicate n 0) = 0"
  by (induction n) auto

lemma sample_length: "length sample_archive = 332"
  by (simp add: sample_archive_def)

lemma sample_magic: "take 4 sample_archive = IDCL"
  by (simp add: sample_archive_def IDCL_def)

lemma sample_header:
  "u32_at sample_archive 4 = 1" "u32_at sample_archive 40 = 1" "u32_at sample_archive 44 = 0"
  "u32_at sample_archive 48 = 1" "u32_at sample_archive 52 = 0"
  "u64_at sample_archive 72 = 120" "u64_at sample_archive 80 = 0" "u64_at sample_archive 88 = 188"
  "u64_at sample_archive 96 = 0" "u64_at sample_archive 104 = 152" "u64_at sample_archive 112 = 172"
  by (simp_all add: sample_archive_def u32_at_def u64_at_def)

lemma sample_tables:
  "u64_at sample_archive 120 = 2" "u64_at sample_archive 128 = 0" "u64_at sample_archive 136 = 4"
  "takeWhile (\<lambda>b. b \<noteq> 0) (drop 144 sample_archive) = [0x78, 0x2E, 0x79]"
  "takeWhile (\<lambda>b. b \<noteq> 0) (drop 148 sample_archive) = [0x61, 0x2E, 0x62]"
  "u64_at sample_archive 156 = 0" "u64_at sample_archive 164 = 1"
  by (simp_all add: sample_archive_def u64_at_def)

lemma sample_record:
  "u64_at sample_archive 212 = 0" "u64_at sample_archive 220 = 0" "u64_at sample_archive 244 = 172"
  "u64_at sample_archive 252 = 16" "u64_at sample_archive 260 = 32" "u64_at sample_archive 300 = 4"
  "take 4 (drop 184 sample_archive) = [13, 14, 15, 16]"
  "take 16 (drop 172 sample_archive) = [1, 2, 3, 4, 5, 6, 7, 8, 9, 10, 11, 12, 13, 14, 15, 16]"
  by (simp_all add: sample_archive_def u64_at_def)

lemma clean_ab: "clean_name [97, 46, 98] = py ''a.b''"
  by code_simp

lemma clean_xy: "clean_name [120, 46, 121] = py ''x.y''"
  by code_simp

lemma read_offsets_numeral:
  "read_offsets (numeral n) f = read_offsets (Suc (pred_numeral n)) f"
  by (simp add: numeral_eq_Suc)

lemma replicate_2: "replicate 2 x = [x, x]"
  by (simp add: numeral_2_eq_2)

lemma sample_index:
  "read_index (py ''out'') sample_archive
     = Inr (Some (sample_header_v, sample_ctx, \<lparr>data = sample_archive, pos = 188\<rparr>))"
  by (simp add: read_index_def f_read_eq read_header_eq read_u64_eq f_seek_gen skip_aux_gen
      skip_reads_eq read_cstring_eq f_tell_def bind_err_def SSIZE_MAX_def
      sample_length sample_magic sample_header sample_tables clean_ab clean_xy
      sample_header_v_def sample_ctx_def read_offsets_numeral replicate_2
      del: skip_reads.simps)

lemma sample_read_record:
  "read_record \<lparr>data = sample_archive, pos = 188\<rparr>
     = Inr (sample_rec, \<lparr>data = sample_archive, pos = 332\<rparr>)"
  by (simp add: read_record_eq sample_length sample_record sample_rec_def)

lemma sample_lookup:
  "lookup_ids 156 sample_rec \<lparr>data = sample_archive, pos = 332\<rparr>
     = Inr (332, 0, 1, \<lparr>data = sample_archive, pos = 332\<rparr>)"
  by (simp add: lookup_ids_eq SSIZE_MAX_def sample_length sample_tables sample_rec_def)

lemma sample_filename: "record_filename sample_ctx (Suc 0) 0 = Inr (py ''a.b'')"
  by code_simp

lemma sample_not_garbage: "\<not> is_garbage_file (py ''a.b'') 32"
  by code_simp

lemma sample_path: "output_path_of (log_env dec) sample_ctx (py ''a.b'') s = py ''out/a.b''"
  by (simp add: output_path_of_def log_env_def sample_ctx_def last_component_def py_def)

lemma sample_read_compressed:
  "read_compressed sample_rec \<lparr>data = sample_archive, pos = 172\<rparr>
     = Inr ([13, 14, 15, 16], \<lparr>data = sample_archive, pos = 188\<rparr>)"
  by (simp add: read_compressed_def adjust_span_eq f_seek_gen f_read_int_eq bind_err_def
      SSIZE_MAX_def sample_rec_def sample_length sample_record)

lemma log_env_sel:
  "oodle (log_env dec) = dec"
  "mkdir_parent (log_env dec) p s = (s, None)"
  "write_file (log_env dec) p bs s = (s @ [(p, bs)], None)"
  by (simp_all add: log_env_def)

lemma py_append: "py a @ py b = py (a @ b)"
  by (simp add: py_def)

lemma sample_round:
  "extract_record (log_env None) sample_ctx 0
     \<lparr>rd = \<lparr>data = sample_archive, pos = 188\<rparr>, fs = [], extracted = 0, skipped = 0,
       oodle_calls = []\<rparr>
   = Inr \<lparr>rd = \<lparr>data = sample_archive, pos = 332\<rparr>,
          fs = [(py ''out/a.b.compressed'', [13, 14, 15, 16])],
          extracted = 1, skipped = 0, oodle_calls = []\<rparr>"
proof -
  have ne: "size sample_rec \<noteq> zsize sample_rec" by (simp add: sample_rec_def)
  have o: "offset sample_rec = 172" "size sample_rec = 32" by (simp_all add: sample_rec_def)
  have d: "dummy7_off sample_ctx = 156" by (simp add: sample_ctx_def)
  show ?thesis
    by (simp add: extract_record_def d sample_read_record sample_lookup sample_filename
        emit_record_def sample_not_garbage sample_path log_env_sel fs_step_def
        write_payload_compressed[OF ne] o sample_read_compressed write_compressed_eq
        py_append f_seek_gen SSIZE_MAX_def bind_err_def)
qed

lemma u64_at_take: "k + 8 \<le> n \<Longrightarrow> u64_at (take n d) k = u64_at d k"
  by (simp add: u64_at_def drop_take min_def)

lemma u32_at_take: "k + 4 \<le> n \<Longrightarrow> u32_at (take n d) k = u32_at d k"
  by (simp add: u32_at_def drop_take min_def)

lemma truncated_length: "length truncated_archive = 318"
  by (simp add: truncated_archive_def sample_length)

lemma truncated_magic: "take 4 truncated_archive = IDCL"
  by (simp add: truncated_archive_def sample_magic)

lemma truncated_header:
  "u32_at truncated_archive 4 = 1" "u32_at truncated_archive 40 = 1" "u32_at truncated_archive 44 = 0"
  "u32_at truncated_archive 48 = 1" "u32_at truncated_archive 52 = 0"
  "u64_at truncated_archive 72 = 120" "u64_at truncated_archive 80 = 0" "u64_at truncated_archive 88 = 188"
  "u64_at truncated_archive 96 = 0" "u64_at truncated_archive 104 = 152" "u64_at truncated_archive 112 = 172"
  by (simp_all add: truncated_archive_def u64_at_take u32_at_take sample_header)

lemma truncated_tables:
  "u64_at truncated_archive 120 = 2" "u64_at truncated_archive 128 = 0" "u64_at truncated_archive 136 = 4"
  "takeWhile (\<lambda>b. b \<noteq> 0) (drop 144 truncated_archive) = [0x78, 0x2E, 0x79]"
  "takeWhile (\<lambda>b. b \<noteq> 0) (drop 148 truncated_archive) = [0x61, 0x2E, 0x62]"
  "u64_at truncated_archive 156 = 0" "u64_at truncated_archive 164 = 1"
  by (simp_all add: truncated_archive_def u64_at_take sample_tables)
     (simp_all add: sample_archive_def)

lemma truncated_record:
  "u64_at truncated_archive 212 = 0" "u64_at truncated_archive 220 = 0" "u64_at truncated_archive 244 = 172"
  "u64_at truncated_archive 252 = 16" "u64_at truncated_archive 260 = 32" "u64_at truncated_archive 300 = 4"
  "take 4 (drop 184 truncated_archive) = [13, 14, 15, 16]"
  by (simp_all add: truncated_archive_def u64_at_take sample_record drop_take)

lemma truncated_index:
  "read_index (py ''out'') truncated_archive
     = Inr (Some (sample_header_v, sample_ctx, \<lparr>data = truncated_archive, pos = 188\<rparr>))"
  by (simp add: read_index_def f_read_eq read_header_eq read_u64_eq f_seek_gen skip_aux_gen
      skip_reads_eq read_cstring_eq f_tell_def bind_err_def SSIZE_MAX_def
      truncated_length truncated_magic truncated_header truncated_tables clean_ab clean_xy
      sample_header_v_def sample_ctx_def read_offsets_numeral replicate_2
      del: skip_reads.simps)

lemma truncated_round:
  "extract_record (log_env None) sample_ctx 0
     \<lparr>rd = \<lparr>data = truncated_archive, pos = 188\<rparr>, fs = [], extracted = 0, skipped = 0,
       oodle_calls = []\<rparr>
   = Inr \<lparr>rd = \<lparr>data = truncated_archive, pos = 318\<rparr>,
          fs = [(py ''out/a.b.compressed'', [13, 14, 15, 16])],
          extracted = 1, skipped = 0, oodle_calls = []\<rparr>"
proof -
  have ne: "size sample_rec \<noteq> zsize sample_rec" by (simp add: sample_rec_def)
  have o: "offset sample_rec = 172" "size sample_rec = 32" by (simp_all add: sample_rec_def)
  have d: "dummy7_off sample_ctx = 156" by (simp add: sample_ctx_def)
  have rr: "read_record \<lparr>data = truncated_archive, pos = 188\<rparr>
     = Inr (sample_rec, \<lparr>data = truncated_archive, pos = 318\<rparr>)"
    by (simp add: read_record_eq truncated_length truncated_record sample_rec_def)
  have lk: "lookup_ids 156 sample_rec \<lparr>data = truncated_archive, pos = 318\<rparr>
     = Inr (318, 0, 1, \<lparr>data = truncated_archive, pos = 318\<rparr>)"
    by (simp add: lookup_ids_eq SSIZE_MAX_def truncated_length truncated_tables sample_rec_def)
  have rc: "read_compressed sample_rec \<lparr>data = truncated_archive, pos = 172\<rparr>
     = Inr ([13, 14, 15, 16], \<lparr>data = truncated_archive, pos = 188\<rparr>)"
    by (simp add: read_compressed_def adjust_span_eq f_seek_gen f_read_int_eq bind_err_def
        SSIZE_MAX_def sample_rec_def truncated_length truncated_record)
  show ?thesis
    by (simp add: extract_record_def d rr lk sample_filename
        emit_record_def sample_not_garbage sample_path log_env_sel fs_step_def
        write_payload_compressed[OF ne] o rc write_compressed_eq
        py_append f_seek_gen SSIZE_MAX_def bind_err_def)
qed

section \<open>Properties of the extractor\<close>









text \<open>
  C3, amended: when no decompression capability is available, or when the capability
  raises on the record, the bytes written to the output path with the suffix
  \<open>.compressed\<close> are the compressed bytes as they were read, that is after the 12-byte
  adjustment of the span where the flags ask for it; the round ends normally, the cursor
  back at the saved position and the record counted as extracted.
\<close>

theorem decompression_fallback:
  assumes rec: "read_record (rd st) = Inr (r, f1)"
      and ids: "lookup_ids (dummy7_off cx) r f1 = Inr (current_pos, type_str_id, name_str_id, f2)"
      and nm: "record_filename cx name_str_id i = Inr filename"
      and ng: "\<not> is_garbage_file filename (size r)"
      and mk: "mkdir_parent ev (output_path_of ev cx filename (fs st)) (fs st) = (s1, None)"
      and ne: "size r \<noteq> zsize r"
      and rc: "read_compressed r \<lparr>data = data (rd st), pos = offset r\<rparr> = Inr (compressed_data, f3)"
      and fail: "oodle ev = None
                 \<or> (\<exists>dec. oodle ev = Some dec \<and> dec compressed_data (size r) = None)"
      and wr: "write_file ev (output_path_of ev cx filename (fs st) @ py ''.compressed'')
                 compressed_data s1 = (s2, None)"
  shows "extract_record ev cx i st =
           Inr (st\<lparr>rd := \<lparr>data = data (rd st), pos = current_pos\<rparr>, fs := s2,
                    extracted := extracted st + 1,
                    oodle_calls := (if oodle ev = None then oodle_calls st
                                    else oodle_calls st @ [(compressed_data, size r)])\<rparr>)
     \<and> compressed_data =
         (if zip_flags r AND 4 \<noteq> 0 \<and> zip_flags r AND 1 = 0
          then (if zsize r = 11 then drop (offset r + 12) (data (rd st))
                else take (zsize r - 12) (drop (offset r + 12) (data (rd st))))
          else take (zsize r) (drop (offset r) (data (rd st))))"
proof -
  obtain d p where rdst: "rd st = \<lparr>data = d, pos = p\<rparr>" by (cases "rd st") auto
  from rec have f1: "f1 = \<lparr>data = d, pos = min (p + 144) (length d)\<rparr>"
    by (auto simp: rdst read_record_eq split: if_splits)
  from ids have cur: "current_pos = min (p + 144) (length d)" and f2: "f2 = f1"
    and curok: "\<not> int current_pos > SSIZE_MAX"
    unfolding f1 by (auto simp: lookup_ids_eq split: if_splits)
  from rc have offok: "\<not> int (offset r) > SSIZE_MAX"
    by (auto simp: read_compressed_def adjust_span_eq f_seek_gen bind_err_Inr_iff split: if_splits)
  have d3: "data f3 = d" using read_compressed_data[OF rc] by (simp add: rdst)
  define path where "path = output_path_of ev cx filename (fs st)"
  define st1 where "st1 = st\<lparr>rd := f2, fs := s1\<rparr>"
  have rc1: "read_compressed r \<lparr>data = data (rd st1), pos = offset r\<rparr> = Inr (compressed_data, f3)"
    using rc by (simp add: st1_def f2 f1 rdst)
  have wp: "write_payload ev r path st1 =
     Inr (st1\<lparr>rd := f3, fs := s2,
              oodle_calls := (if oodle ev = None then oodle_calls st
                              else oodle_calls st @ [(compressed_data, size r)])\<rparr>)"
  proof (cases "oodle ev")
    case None
    then show ?thesis
      using offok rc1 wr
      by (simp add: write_payload_compressed[OF ne] bind_err_def write_compressed_eq
          path_def st1_def)
  next
    case (Some dec)
    with fail have "dec compressed_data (size r) = None" by auto
    with Some show ?thesis
      using offok rc1 wr
      by (simp add: write_payload_compressed[OF ne] bind_err_def write_compressed_eq
          path_def st1_def)
  qed
  have "emit_record ev cx r current_pos filename (st\<lparr>rd := f2\<rparr>) =
           Inr (st\<lparr>rd := \<lparr>data = d, pos = current_pos\<rparr>, fs := s2,
                    extracted := extracted st + 1,
                    oodle_calls := (if oodle ev = None then oodle_calls st
                                    else oodle_calls st @ [(compressed_data, size r)])\<rparr>)"
    using ng mk wp curok d3
    by (simp add: emit_record_def Let_def bind_err_def fs_step_def f_seek_gen path_def st1_def)
  then have a: "extract_record ev cx i st =
           Inr (st\<lparr>rd := \<lparr>data = data (rd st), pos = current_pos\<rparr>, fs := s2,
                    extracted := extracted st + 1,
                    oodle_calls := (if oodle ev = None then oodle_calls st
                                    else oodle_calls st @ [(compressed_data, size r)])\<rparr>)"
    using rec ids nm by (simp add: extract_record_def bind_err_def rdst)
  from read_compressed_value[OF rc]
  have b: "compressed_data =
         (if zip_flags r AND 4 \<noteq> 0 \<and> zip_flags r AND 1 = 0
          then (if zsize r = 11 then drop (offset r + 12) (data (rd st))
                else take (zsize r - 12) (drop (offset r + 12) (data (rd st))))
          else take (zsize r) (drop (offset r) (data (rd st))))"
    by (auto split: if_splits)
  from a b show ?thesis by blast
qed

theorem decompression_fallback_witness:
  "extract_record (log_env (Some (\<lambda>bs n. None))) sample_ctx 0
       \<lparr>rd = \<lparr>data = sample_archive, pos = 188\<rparr>, fs = [], extracted = 0, skipped = 0,
         oodle_calls = []\<rparr>
     = Inr \<lparr>rd = \<lparr>data = sample_archive, pos = 332\<rparr>,
            fs = [(py ''out/a.b.compressed'', [13, 14, 15, 16])],
            extracted = 1, skipped = 0, oodle_calls = [([13, 14, 15, 16], 32)]\<rparr>"
proof -
  let ?ev = "log_env (Some (\<lambda>bs n. None))"
  let ?st = "\<lparr>rd = \<lparr>data = sample_archive, pos = 188\<rparr>, fs = [], extracted = 0,
               skipped = 0, oodle_calls = []\<rparr> :: (pystr \<times> byte list) list xstate"
  have d: "dummy7_off sample_ctx = 156" by (simp add: sample_ctx_def)
  have o: "offset sample_rec = 172" "size sample_rec = 32" by (simp_all add: sample_rec_def)
  have rec: "read_record (rd ?st) = Inr (sample_rec, \<lparr>data = sample_archive, pos = 332\<rparr>)"
    by (simp add: sample_read_record)
  have ids: "lookup_ids (dummy7_off sample_ctx) sample_rec \<lparr>data = sample_archive, pos = 332\<rparr>
       = Inr (332, 0, 1, \<lparr>data = sample_archive, pos = 332\<rparr>)"
    unfolding d by (rule sample_lookup)
  have nm: "record_filename sample_ctx 1 0 = Inr (py ''a.b'')"
    using sample_filename by simp
  have ng: "\<not> is_garbage_file (py ''a.b'') (size sample_rec)"
    using sample_not_garbage by (simp add: o)
  have mk: "mkdir_parent ?ev (output_path_of ?ev sample_ctx (py ''a.b'') (fs ?st)) (fs ?st)
              = ([], None)"
    by (simp add: log_env_sel)
  have ne: "size sample_rec \<noteq> zsize sample_rec" by (simp add: sample_rec_def)
  have rc: "read_compressed sample_rec \<lparr>data = data (rd ?st), pos = offset sample_rec\<rparr>
              = Inr ([13, 14, 15, 16], \<lparr>data = sample_archive, pos = 188\<rparr>)"
    by (simp add: o sample_read_compressed)
  have fail: "oodle ?ev = None
     \<or> (\<exists>dec. oodle ?ev = Some dec \<and> dec [13, 14, 15, 16] (size sample_rec) = None)"
    by (simp add: log_env_sel)
  have wr: "write_file ?ev (output_path_of ?ev sample_ctx (py ''a.b'') (fs ?st) @ py ''.compressed'')
              [13, 14, 15, 16] [] = ([(py ''out/a.b.compressed'', [13, 14, 15, 16])], None)"
    by (simp add: log_env_sel sample_path py_append)
  from decompression_fallback[OF rec ids nm ng mk ne rc fail wr]
  show ?thesis
    by (simp add: log_env_sel o)
qed

text \<open>
  C3, as stated, says that the fallback writes the unadjusted span. On the sample
  archive (flags 4, payload of 16 bytes at offset 172, no capability) the file
  \<open>out/a.b.compressed\<close> receives the last four bytes only, not the sixteen bytes of the
  span at the payload offset.
\<close>

theorem fallback_adjusted_counterexample:
  "extract_resources (log_env None) (py ''out'') sample_archive []
     = Inr \<lparr>rd = \<lparr>data = sample_archive, pos = 332\<rparr>,
            fs = [(py ''out/a.b.compressed'', [13, 14, 15, 16])],
            extracted = 1, skipped = 0, oodle_calls = []\<rparr>
   \<and> take 16 (drop 172 sample_archive) = [1, 2, 3, 4, 5, 6, 7, 8, 9, 10, 11, 12, 13, 14, 15, 16]"
proof -
  have fc: "files_count sample_header_v = 1" by (simp add: sample_header_v_def)
  show ?thesis
    by (simp add: extract_resources_def sample_index bind_err_def fc sample_round sample_record)
qed

text \<open>
  C10, amended: a round of the record loop that completes, on any branch, leaves the
  cursor where it was saved after the record's fields were consumed: 144 bytes after
  the start of the record when the record lies inside the file, and at the end of the
  file when the file ends inside the record's last, discarded fields. It counts the
  record once, as skipped or as extracted.
\<close>

theorem record_cursor_advance:
  assumes "extract_record ev cx i st = Inr st'"
  shows "pos (rd st) + 120 \<le> length (data (rd st))
     \<and> rd st' = \<lparr>data = data (rd st),
                  pos = min (pos (rd st) + 144) (length (data (rd st)))\<rparr>
     \<and> (pos (rd st) + 144 \<le> length (data (rd st)) \<longrightarrow> pos (rd st') = pos (rd st) + 144)
     \<and> (extracted st' = extracted st \<and> skipped st' = skipped st + 1
        \<or> extracted st' = extracted st + 1 \<and> skipped st' = skipped st)"
proof (rule extract_record_decomp[OF assms])
  fix r :: file_record and k t :: nat and fn :: pystr
  assume len: "pos (rd st) + 120 \<le> length (data (rd st))"
  assume g: "is_garbage_file fn (size r) \<Longrightarrow>
       st' = st\<lparr>rd := \<lparr>data = data (rd st),
                         pos = min (pos (rd st) + 144) (length (data (rd st)))\<rparr>,
                 skipped := skipped st + 1\<rparr>"
  assume ng: "\<not> is_garbage_file fn (size r) \<Longrightarrow>
       \<exists>s1 st2. mkdir_parent ev (output_path_of ev cx fn (fs st)) (fs st) = (s1, None)
         \<and> write_payload ev r (output_path_of ev cx fn (fs st))
              (st\<lparr>rd := \<lparr>data = data (rd st),
                           pos = min (pos (rd st) + 144) (length (data (rd st)))\<rparr>,
                   fs := s1\<rparr>) = Inr st2
         \<and> st' = st2\<lparr>rd := \<lparr>data = data (rd st),
                              pos = min (pos (rd st) + 144) (length (data (rd st)))\<rparr>,
                      extracted := extracted st2 + 1\<rparr>"
  show ?thesis
  proof (cases "is_garbage_file fn (size r)")
    case True
    from g[OF True] len show ?thesis by simp
  next
    case False
    from ng[OF False] obtain s1 st2 where
      wp: "write_payload ev r (output_path_of ev cx fn (fs st))
              (st\<lparr>rd := \<lparr>data = data (rd st),
                           pos = min (pos (rd st) + 144) (length (data (rd st)))\<rparr>,
                   fs := s1\<rparr>) = Inr st2" and
      st': "st' = st2\<lparr>rd := \<lparr>data = data (rd st),
                              pos = min (pos (rd st) + 144) (length (data (rd st)))\<rparr>,
                      extracted := extracted st2 + 1\<rparr>"
      by blast
    from write_payload_Inr[OF wp] st' len show ?thesis by simp
  qed
qed

theorem record_cursor_advance_witness:
  "extract_record (log_env None) sample_ctx 0
       \<lparr>rd = \<lparr>data = sample_archive, pos = 188\<rparr>, fs = [], extracted = 0, skipped = 0,
         oodle_calls = []\<rparr>
     = Inr \<lparr>rd = \<lparr>data = sample_archive, pos = 332\<rparr>,
            fs = [(py ''out/a.b.compressed'', [13, 14, 15, 16])],
            extracted = 1, skipped = 0, oodle_calls = []\<rparr>
   \<and> 188 + 144 \<le> length sample_archive
   \<and> pos (rd \<lparr>rd = \<lparr>data = sample_archive, pos = 332\<rparr>,
            fs = [(py ''out/a.b.compressed'', [13, 14, 15, 16])],
            extracted = 1, skipped = 0, oodle_calls = []\<rparr>) = 188 + 144"
  using sample_round record_cursor_advance[OF sample_round]
  by (simp add: sample_length)

text \<open>
  C10, as stated, says that every round advances the cursor by exactly 144 bytes. On the
  sample archive cut at 318 bytes the record starts at 188, its decoded fields end at
  308, the round completes and the cursor ends at 318: an advance of 130 bytes.
\<close>

theorem truncated_record_counterexample:
  "read_index (py ''out'') truncated_archive
     = Inr (Some (sample_header_v, sample_ctx, \<lparr>data = truncated_archive, pos = 188\<rparr>))
   \<and> extract_record (log_env None) sample_ctx 0
       \<lparr>rd = \<lparr>data = truncated_archive, pos = 188\<rparr>, fs = [], extracted = 0, skipped = 0,
         oodle_calls = []\<rparr>
     = Inr \<lparr>rd = \<lparr>data = truncated_archive, pos = 318\<rparr>,
            fs = [(py ''out/a.b.compressed'', [13, 14, 15, 16])],
            extracted = 1, skipped = 0, oodle_calls = []\<rparr>
   \<and> (318 :: nat) \<noteq> 188 + 144"
  by (simp add: truncated_index truncated_round)

section \<open>The mesh decoder, in closed form\<close>

lemma read_int16_le_eq:
  "read_int16_le dat off =
     (if off + 2 \<le> length dat then Inr (u16_at dat off) else Inl StructError)"
  by (auto simp: read_int16_le_def slice_def u16_at_def Let_def min_def)

lemma read_float_le_eq:
  "read_float_le ops dat off =
     (if off + 4 \<le> length dat then Inr (f32 ops (take 4 (drop off dat))) else Inl StructError)"
  by (auto simp: read_float_le_def slice_def Let_def min_def)

lemma read_vertices_fit:
  "off + 48 * n \<le> length dat \<Longrightarrow>
     \<exists>vs' us'. read_vertices ops dat off n vs us = Inr (vs', us', off + 48 * n)
       \<and> length vs' = length vs + n \<and> length us' = length us + n"
proof (induction n arbitrary: off vs us)
  case 0
  then show ?case by simp
next
  case (Suc n)
  from Suc.prems have fit: "off + 48 + 48 * n \<le> length dat" by simp
  from Suc.IH[OF fit, of "vs @ [(f32 ops (take 4 (drop off dat)),
        f32 ops (take 4 (drop (off + 4) dat)), f32 ops (take 4 (drop (off + 8) dat)))]"
      "us @ [(f32 ops (take 4 (drop (off + 12) dat)), f32 ops (take 4 (drop (off + 16) dat)))]"]
  show ?case
    using Suc.prems
    by (auto simp: read_float_le_eq bind_err_def VERTEX_STRIDE_def add.assoc)
qed

lemma read_faces_fit:
  "off + 6 * n \<le> length dat \<Longrightarrow>
     read_faces dat off n fcs
       = Inr (fcs @ map (\<lambda>j. face_at dat (off + 6 * j)) [0 ..< n], off + 6 * n)"
proof (induction n arbitrary: off fcs)
  case 0
  then show ?case by simp
next
  case (Suc n)
  from Suc.prems have fit: "off + 6 + 6 * n \<le> length dat" by simp
  have m: "map (\<lambda>j. face_at dat (off + 6 * j)) [0 ..< Suc n]
         = face_at dat off # map (\<lambda>j. face_at dat (off + 6 + 6 * j)) [0 ..< n]"
    by (simp add: upt_conv_Cons map_Suc_upt[symmetric] add.assoc del: upt_Suc)
  from Suc.IH[OF fit, of "fcs @ [face_at dat off]"] Suc.prems
  show ?case
    unfolding m
    by (simp add: read_int16_le_eq bind_err_def face_at_def add.assoc)
qed

lemma face_ok_flip: "list_all (face_ok n) fcs \<Longrightarrow> list_all (face_ok n) (flip_faces fcs)"
  by (induction fcs) (auto simp: flip_faces_def face_ok_def)

lemma apply_transforms_Inr:
  assumes "apply_transforms ops m = Inr m'"
  shows "vertices m' = rotate_x_minus_90 ops (vertices m)"
    and "uvs m' = flip_uvs ops (uvs m)"
    and "faces m' = flip_faces (faces m)"
  using assms
  by (auto simp: apply_transforms_def ROTATE_X_MINUS_90_def FLIP_UV_MAPS_def
      FLIP_FACE_ORIENTATION_def SHADE_SMOOTH_def bind_err_Inr_iff)

lemma part_ok_transformed:
  assumes "part_ok m" and "apply_transforms ops m = Inr m'"
  shows "part_ok m'"
  using assms(1) face_ok_flip[of "length (vertices m)" "faces m"]
  by (simp add: part_ok_def apply_transforms_Inr[OF assms(2)] rotate_x_minus_90_def flip_uvs_def)

lemma extract_model_found:
  assumes fm: "find_buffer_marker dat start = Some (m, marker)"
      and fit: "m + 53 + 48 * u16_at dat (m + 21) + 6 * u16_at dat (m + 25) \<le> length dat"
  shows "\<exists>vs us. extract_model ops dat start =
           Inr (Some (\<lparr>vertices = vs, uvs = us,
                        faces = map (\<lambda>j. face_at dat (m + 53 + 48 * u16_at dat (m + 21) + 6 * j))
                                  [0 ..< u16_at dat (m + 25)],
                        vertex_count = u16_at dat (m + 21),
                        face_count = u16_at dat (m + 25), normals = None\<rparr>,
                      m + 53 + 48 * u16_at dat (m + 21) + 6 * u16_at dat (m + 25)))
         \<and> length vs = u16_at dat (m + 21) \<and> length us = u16_at dat (m + 21)"
proof -
  let ?vc = "u16_at dat (m + 21)"
  let ?fc = "u16_at dat (m + 25)"
  from fit have "m + 53 + 48 * ?vc \<le> length dat" by simp
  from read_vertices_fit[OF this, of ops "[]" "[]"] obtain vs us where
    rv: "read_vertices ops dat (m + 53) ?vc [] [] = Inr (vs, us, m + 53 + 48 * ?vc)" and
    lv: "length vs = ?vc" "length us = ?vc" by auto
  note rf = read_faces_fit[OF fit, of "[]"]
  have "extract_model ops dat start =
           Inr (Some (\<lparr>vertices = vs, uvs = us,
                        faces = map (\<lambda>j. face_at dat (m + 53 + 48 * ?vc + 6 * j)) [0 ..< ?fc],
                        vertex_count = ?vc, face_count = ?fc, normals = None\<rparr>,
                      m + 53 + 48 * ?vc + 6 * ?fc))"
    using fm fit rv rf
    by (simp add: extract_model_def Let_def read_int16_le_eq bind_err_def
        BUFFER_MARKERS_def SKIP_TO_VERTEX_COUNT_def SKIP_TO_FACE_COUNT_def
        SKIP_TO_FIRST_VERTEX_def ac_simps)
  with lv show ?thesis by blast
qed

lemma scan_markers_first:
  "marker_at dat s = Some mk \<Longrightarrow> s < e \<Longrightarrow> scan_markers dat [s ..< e] = Some (s, mk)"
  by (simp add: upt_conv_Cons)

lemma shifted_mesh_marker:
  "find_buffer_marker shifted_mesh 64 = Some (64, [1, 1, 0, 0, 0, 0, 0, 0])"
proof -
  have "marker_at shifted_mesh 64 = Some [1, 1, 0, 0, 0, 0, 0, 0]"
    by (simp add: marker_at_def BUFFER_MARKERS_def slice_def shifted_mesh_def)
  then show ?thesis
    by (simp add: find_buffer_marker_def BUFFER_MARKERS_def scan_markers_first shifted_mesh_def)
qed

section \<open>Properties of the mesh converter\<close>

text \<open>
  C2 places the vertex count at the marker offset plus 8 plus 19. The code adds the
  number of markers in \<open>BUFFER_MARKERS\<close>, which is 2, where the length of a marker, 8,
  is meant: on a buffer with the marker at 64, a count of 0 at 64 + 2 + 19 and a count
  of 1 at 64 + 8 + 19, it decodes an empty part ending at 117.
\<close>

theorem extract_model_skips_two_bytes:
  "extract_model ops shifted_mesh 64
     = Inr (Some (\<lparr>vertices = [], uvs = [], faces = [], vertex_count = 0, face_count = 0,
                    normals = None\<rparr>, 117))
   \<and> read_int16_le shifted_mesh (64 + 8 + 19) = Inr 1
   \<and> read_int16_le shifted_mesh (64 + 2 + 19) = Inr 0"
proof -
  have u: "u16_at shifted_mesh 85 = 0" "u16_at shifted_mesh 89 = 0" "u16_at shifted_mesh 91 = 1"
    "length shifted_mesh = 171"
    by (simp_all add: u16_at_def shifted_mesh_def)
  have "extract_model ops shifted_mesh 64
     = Inr (Some (\<lparr>vertices = [], uvs = [], faces = [], vertex_count = 0, face_count = 0,
                    normals = None\<rparr>, 117))"
    by (simp add: extract_model_def shifted_mesh_marker Let_def read_int16_le_eq bind_err_def u
        BUFFER_MARKERS_def SKIP_TO_VERTEX_COUNT_def SKIP_TO_FACE_COUNT_def
        SKIP_TO_FIRST_VERTEX_def)
  then show ?thesis
    by (simp add: read_int16_le_eq u)
qed

lemma empty_part_mesh_marker:
  "find_buffer_marker empty_part_mesh 64 = Some (64, [1, 1, 0, 0, 0, 0, 0, 0])"
proof -
  have "marker_at empty_part_mesh 64 = Some [1, 1, 0, 0, 0, 0, 0, 0]"
    by (simp add: marker_at_def BUFFER_MARKERS_def slice_def empty_part_mesh_def)
  then show ?thesis
    by (simp add: find_buffer_marker_def BUFFER_MARKERS_def scan_markers_first
        empty_part_mesh_def)
qed

text \<open>
  C7 asks that every valid mesh input decodes to a part whose UV list is as long as its
  vertex list and whose faces only hold indices below that length. The code does not
  give that: on a buffer that is an empty part in the layout counted from the marker end
  (vertex count 0 at 64 + 8 + 19, face count 0 four bytes later, room for the header
  fields), \<open>extract_model\<close> reads its counts six bytes early, as in C2, finds a face count
  of 1, and returns one face \<open>(0, 0, 0)\<close> with no vertex; the transform pipeline then
  raises \<open>IndexError\<close>.
\<close>

theorem extract_model_breaks_invariant:
  "read_int16_le empty_part_mesh (64 + 8 + 19) = Inr 0
   \<and> read_int16_le empty_part_mesh (64 + 8 + 19 + 2 + 2) = Inr 0
   \<and> 64 + 8 + 19 + 2 + 2 + 2 + 26 \<le> length empty_part_mesh
   \<and> extract_model ops empty_part_mesh 64
       = Inr (Some (\<lparr>vertices = [], uvs = [], faces = [(0, 0, 0)], vertex_count = 0,
                      face_count = 1, normals = None\<rparr>, 123))
   \<and> \<not> part_ok \<lparr>vertices = [], uvs = [], faces = [(0, 0, 0)], vertex_count = 0,
                   face_count = 1, normals = None\<rparr>
   \<and> apply_transforms ops
         \<lparr>vertices = [], uvs = [], faces = [(0, 0, 0)], vertex_count = 0, face_count = 1,
           normals = None\<rparr>
       = Inl IndexError"
proof -
  have u: "u16_at empty_part_mesh 85 = 0" "u16_at empty_part_mesh 89 = 1"
    "u16_at empty_part_mesh 91 = 0" "u16_at empty_part_mesh 95 = 0"
    "u16_at empty_part_mesh 117 = 0" "u16_at empty_part_mesh 119 = 0"
    "u16_at empty_part_mesh 121 = 0" "length empty_part_mesh = 171"
    by (simp_all add: u16_at_def empty_part_mesh_def)
  have a: "extract_model ops empty_part_mesh 64
       = Inr (Some (\<lparr>vertices = [], uvs = [], faces = [(0, 0, 0)], vertex_count = 0,
                      face_count = 1, normals = None\<rparr>, 123))"
    by (simp add: extract_model_def empty_part_mesh_marker Let_def read_int16_le_eq
        bind_err_def u BUFFER_MARKERS_def SKIP_TO_VERTEX_COUNT_def SKIP_TO_FACE_COUNT_def
        SKIP_TO_FIRST_VERTEX_def)
  have b: "\<not> part_ok \<lparr>vertices = [], uvs = [], faces = [(0, 0, 0)], vertex_count = 0,
                   face_count = 1, normals = None\<rparr>"
    by (simp add: part_ok_def face_ok_def)
  have c: "apply_transforms ops
         \<lparr>vertices = [], uvs = [], faces = [(0, 0, 0)], vertex_count = 0, face_count = 1,
           normals = None\<rparr>
       = Inl IndexError"
    by (simp add: apply_transforms_def ROTATE_X_MINUS_90_def FLIP_UV_MAPS_def
        FLIP_FACE_ORIENTATION_def SHADE_SMOOTH_def rotate_x_minus_90_def flip_uvs_def
        flip_faces_def calculate_vertex_normals_def list_get_def bind_err_def)
  from a b c show ?thesis
    by (simp add: read_int16_le_eq u)
qed

end
